theory Spec2Isabelle
  imports Complex_Main "HOL-Library.Word" "HOL-Library.Signed_Division" "HOL-Library.AList"
begin

section \<open>Data model\<close>

text \<open>
  The program exists in two variants, \<^verbatim>\<open>src/main.go\<close> and \<^verbatim>\<open>src/unnamed/part_000\<close>.
  Definitions without a suffix embed \<^verbatim>\<open>src/main.go\<close>; those ending in \<open>_part000\<close> embed
  the second file.

  Go's \<^verbatim>\<open>int\<close> is taken at its width on 64-bit platforms: a 64-bit two's complement
  integer whose addition wraps around.
\<close>

type_synonym int64 = "64 word"

text \<open>A Go \<^verbatim>\<open>error\<close> value, identified with the message its \<^verbatim>\<open>Error()\<close> method returns.\<close>

datatype error = Error string

fun Error_msg :: "error \<Rightarrow> string" where
  "Error_msg (Error m) = m"

text \<open>A call either returns or panics (the runtime's message is kept).\<close>

datatype 'a outcome = Return 'a | Panic string

record VPG =
  ActualRPO :: int64

record Config =
  Username :: string
  Password :: string

text \<open>
  \<^verbatim>\<open>http.Header\<close>: a key has a list of values; \<^verbatim>\<open>Get\<close> returns the first value of the
  key or the empty string, \<^verbatim>\<open>Set\<close> replaces the values of the key by one value. Both
  canonicalise the key first; the two keys the program uses, \<^verbatim>\<open>X-Zerto-Session\<close> and
  \<^verbatim>\<open>Authorization\<close>, are in canonical form already.
\<close>

type_synonym Header = "(string \<times> string list) list"

definition Header_Get :: "Header \<Rightarrow> string \<Rightarrow> string" where
  "Header_Get h key = (case map_of h key of None \<Rightarrow> [] | Some [] \<Rightarrow> [] | Some (v # vs) \<Rightarrow> v)"

definition Header_Set :: "Header \<Rightarrow> string \<Rightarrow> string \<Rightarrow> Header" where
  "Header_Set h key v = AList.update key [v] h"

record request =
  Method :: string
  URL :: string
  ReqHeader :: Header

text \<open>
  The part of \<^verbatim>\<open>http.Response\<close> the program reads. \<open>Body\<close> is what
  \<^verbatim>\<open>io.ReadAll(resp.Body)\<close> gives: the bytes, or a read error.
\<close>

record response =
  StatusCode :: int64
  RespHeader :: Header
  Body :: "error + string"

section \<open>The environment: standard library, file system and network\<close>

text \<open>
  The calls into Go's standard library are parameters of the model. \<open>'n\<close> is the state
  of everything behind the HTTP client (cookie jar, connections, the server), which a
  request may change.
  \<^item> \<open>ReadFile\<close>: \<^verbatim>\<open>os.ReadFile\<close>;
  \<^item> \<open>Unmarshal_Config\<close>: \<^verbatim>\<open>json.Unmarshal\<close> into a \<^verbatim>\<open>Config\<close>;
  \<^item> \<open>Unmarshal_VPGs\<close>: \<^verbatim>\<open>json.Unmarshal\<close> into a \<^verbatim>\<open>[]VPG\<close>;
  \<^item> \<open>url_ok\<close>: whether \<^verbatim>\<open>http.NewRequest\<close> accepts the URL (it returns a nil request
    and an error otherwise);
  \<^item> \<open>basicAuth\<close>: the base64 encoding of \<^verbatim>\<open>username:password\<close> of net/http;
  \<^item> \<open>Do\<close>: \<^verbatim>\<open>client.Do\<close>.
\<close>

record 'n env =
  ReadFile :: "string \<Rightarrow> error + string"
  Unmarshal_Config :: "string \<Rightarrow> error + Config"
  Unmarshal_VPGs :: "string \<Rightarrow> error + VPG list"
  url_ok :: "string \<Rightarrow> bool"
  basicAuth :: "string \<Rightarrow> string \<Rightarrow> string"
  Do :: "'n \<Rightarrow> request \<Rightarrow> (error + response) \<times> 'n"

text \<open>
  What the process has done so far: the state behind the client, the bytes written to
  standard output, the messages handed to the logger (it writes them to standard error
  after a timestamp), and the requests passed to \<^verbatim>\<open>client.Do\<close>, oldest first.
\<close>

record 'n world =
  net :: 'n
  stdout :: string
  logged :: "string list"
  sent :: "request list"

definition NewRequest :: "'n env \<Rightarrow> string \<Rightarrow> string \<Rightarrow> request option" where
  "NewRequest env method url =
     (if url_ok env url then Some \<lparr>Method = method, URL = url, ReqHeader = []\<rparr> else None)"

definition SetBasicAuth :: "'n env \<Rightarrow> request \<Rightarrow> string \<Rightarrow> string \<Rightarrow> request" where
  "SetBasicAuth env req username password =
     req\<lparr>ReqHeader := Header_Set (ReqHeader req) ''Authorization''
                         (''Basic '' @ basicAuth env username password)\<rparr>"

definition client_Do :: "'n env \<Rightarrow> request \<Rightarrow> 'n world \<Rightarrow> (error + response) \<times> 'n world" where
  "client_Do env req w =
     (case Do env (net w) req of (r, n') \<Rightarrow> (r, w\<lparr>net := n', sent := sent w @ [req]\<rparr>))"

definition Printf :: "'n world \<Rightarrow> string \<Rightarrow> 'n world" where
  "Printf w s = w\<lparr>stdout := stdout w @ s\<rparr>"

definition Println :: "'n world \<Rightarrow> string \<Rightarrow> 'n world" where
  "Println w s = w\<lparr>stdout := stdout w @ s @ [CHR 0x0A]\<rparr>"

text \<open>\<^verbatim>\<open>log.Fatal\<close> and \<^verbatim>\<open>log.Fatalf\<close>: log the message, then \<^verbatim>\<open>os.Exit(1)\<close>.\<close>

definition Fatal :: "'n world \<Rightarrow> string \<Rightarrow> int \<times> 'n world" where
  "Fatal w msg = (1, w\<lparr>logged := logged w @ [msg]\<rparr>)"

text \<open>A panic that nothing recovers ends the process with status 2.\<close>

definition crash :: "'n world \<Rightarrow> string \<Rightarrow> int \<times> 'n world" where
  "crash w msg = (2, w\<lparr>logged := logged w @ [''panic: '' @ msg]\<rparr>)"

definition nil_dereference :: string where
  "nil_dereference = ''runtime error: invalid memory address or nil pointer dereference''"

section \<open>Integers: length, division, decimal output\<close>

text \<open>\<^verbatim>\<open>len\<close> of a slice, as a Go \<^verbatim>\<open>int\<close>.\<close>

definition len :: "'a list \<Rightarrow> int64" where
  "len xs = word_of_nat (length xs)"

text \<open>
  Go's \<^verbatim>\<open>/\<close> on \<^verbatim>\<open>int\<close>: a run-time panic when the divisor is zero, otherwise the
  quotient truncated toward zero (and wrapped to 64 bits).
\<close>

definition go_div :: "int64 \<Rightarrow> int64 \<Rightarrow> int64 option" where
  "go_div a b = (if b = 0 then None else Some (word_of_int (sint a sdiv sint b)))"

fun digits :: "nat \<Rightarrow> string" where
  "digits n = (if n < 10 then [''0123456789'' ! n]
               else digits (n div 10) @ [''0123456789'' ! (n mod 10)])"

declare digits.simps [simp del]

text \<open>The verb \<^verbatim>\<open>%d\<close> (and \<^verbatim>\<open>Println\<close>) on an \<^verbatim>\<open>int\<close>: signed decimal.\<close>

definition itoa :: "int64 \<Rightarrow> string" where
  "itoa x = (if sint x < 0 then CHR ''-'' # digits (nat (- sint x)) else digits (nat (sint x)))"

section \<open>src/main.go\<close>

definition readConfig :: "'n env \<Rightarrow> string \<Rightarrow> Config option \<times> error option" where
  "readConfig env configFile =
     (case ReadFile env configFile of
        Inl err \<Rightarrow> (None, Some err)
      | Inr bytes \<Rightarrow>
          (case Unmarshal_Config env bytes of
             Inl err \<Rightarrow> (None, Some err)
           | Inr config \<Rightarrow> (Some config, None)))"

definition loginToZerto ::
  "'n env \<Rightarrow> string \<Rightarrow> string \<Rightarrow> string \<Rightarrow> 'n world \<Rightarrow> (string \<times> error option) outcome \<times> 'n world" where
  "loginToZerto env serverIP username password w =
     (let loginURL = ''https://'' @ serverIP @ '':9669/v1/session/add'' in
      case NewRequest env ''POST'' loginURL of
        None \<Rightarrow> (Panic nil_dereference, w)
      | Some req0 \<Rightarrow>
          (let req = SetBasicAuth env req0 username password in
           case client_Do env req w of
             (Inl err, w1) \<Rightarrow> (Return ([], Some err), w1)
           | (Inr resp, w1) \<Rightarrow>
               if StatusCode resp \<noteq> 200 then
                 (Return ([], Some (Error (''failed to login, status code: '' @ itoa (StatusCode resp)))), w1)
               else
                 (let sessionToken = Header_Get (RespHeader resp) ''X-Zerto-Session'' in
                  if sessionToken = [] then
                    (Return ([], Some (Error ''session token not found in headers'')), w1)
                  else (Return (sessionToken, None), w1))))"

text \<open>The \<^verbatim>\<open>range\<close> loop of \<^verbatim>\<open>queryVPGs\<close>, started at \<^verbatim>\<open>totalRPO := 0\<close>.\<close>

fun sum_loop :: "int64 \<Rightarrow> VPG list \<Rightarrow> int64" where
  "sum_loop totalRPO [] = totalRPO"
| "sum_loop totalRPO (vpg # vpgs) = sum_loop (totalRPO + ActualRPO vpg) vpgs"

definition queryVPGs ::
  "'n env \<Rightarrow> string \<Rightarrow> string \<Rightarrow> 'n world \<Rightarrow> error option outcome \<times> 'n world" where
  "queryVPGs env serverIP sessionToken w =
     (let apiURL = ''https://'' @ serverIP @ '':9669/v1/vpgs'' in
      case NewRequest env ''GET'' apiURL of
        None \<Rightarrow> (Panic nil_dereference, w)
      | Some req0 \<Rightarrow>
          (let req = req0\<lparr>ReqHeader := Header_Set (ReqHeader req0) ''X-Zerto-Session'' sessionToken\<rparr> in
           case client_Do env req w of
             (Inl err, w1) \<Rightarrow> (Return (Some err), w1)
           | (Inr resp, w1) \<Rightarrow>
               (case Body resp of
                  Inl err \<Rightarrow> (Return (Some err), w1)
                | Inr body \<Rightarrow>
                    (case Unmarshal_VPGs env body of
                       Inl err \<Rightarrow>
                         (Return (Some (Error (''error unmarshalling JSON: '' @ Error_msg err))), w1)
                     | Inr vpgs \<Rightarrow>
                         (let totalRPO = sum_loop 0 vpgs in
                          if 0 <s len vpgs then
                            (case go_div totalRPO (len vpgs) of
                               None \<Rightarrow> (Panic ''runtime error: integer divide by zero'', w1)
                             | Some averageRPO \<Rightarrow> (Return None, Printf w1 (itoa averageRPO)))
                          else (Return None, Println w1 ''No VPGs found.''))))))"

text \<open>
  \<open>main\<close> takes the parsed flags \<^verbatim>\<open>-server\<close> and \<^verbatim>\<open>-config\<close> and gives the exit status.
  A nil \<^verbatim>\<open>*Config\<close> without an error would be dereferenced at \<^verbatim>\<open>config.Username\<close>.
\<close>

definition main :: "'n env \<Rightarrow> string \<Rightarrow> string \<Rightarrow> 'n world \<Rightarrow> int \<times> 'n world" where
  "main env serverIP configFile w =
     (if configFile = [] then Fatal w ''Config file path is required''
      else
        case readConfig env configFile of
          (_, Some err) \<Rightarrow> Fatal w (''Error reading config file: '' @ Error_msg err)
        | (None, None) \<Rightarrow> crash w nil_dereference
        | (Some config, None) \<Rightarrow>
            (case loginToZerto env serverIP (Username config) (Password config) w of
               (Panic p, w1) \<Rightarrow> crash w1 p
             | (Return (_, Some err), w1) \<Rightarrow>
                 Fatal w1 (''Error logging in to Zerto API: '' @ Error_msg err)
             | (Return (sessionToken, None), w1) \<Rightarrow>
                 (case queryVPGs env serverIP sessionToken w1 of
                    (Panic p, w2) \<Rightarrow> crash w2 p
                  | (Return (Some err), w2) \<Rightarrow> Fatal w2 (''Error querying VPGs: '' @ Error_msg err)
                  | (Return None, w2) \<Rightarrow> (0, w2))))"

section \<open>src/unnamed/part_000\<close>

definition zertoAPIPort :: int64 where
  "zertoAPIPort = 9669"

definition readConfig_part000 :: "'n env \<Rightarrow> string \<Rightarrow> Config option \<times> error option" where
  "readConfig_part000 env configFile =
     (case ReadFile env configFile of
        Inl err \<Rightarrow> (None, Some err)
      | Inr data \<Rightarrow>
          (case Unmarshal_Config env data of
             Inl err \<Rightarrow> (None, Some err)
           | Inr config \<Rightarrow> (Some config, None)))"

definition loginToZerto_part000 ::
  "'n env \<Rightarrow> string \<Rightarrow> string \<Rightarrow> string \<Rightarrow> 'n world \<Rightarrow> (string \<times> error option) outcome \<times> 'n world" where
  "loginToZerto_part000 env serverIP username password w =
     (let loginURL = ''https://'' @ serverIP @ '':'' @ itoa zertoAPIPort @ ''/v1/session/add'' in
      case NewRequest env ''POST'' loginURL of
        None \<Rightarrow> (Panic nil_dereference, w)
      | Some req0 \<Rightarrow>
          (let req = SetBasicAuth env req0 username password in
           case client_Do env req w of
             (Inl err, w1) \<Rightarrow> (Return ([], Some err), w1)
           | (Inr resp, w1) \<Rightarrow>
               if StatusCode resp \<noteq> 200 then
                 (Return ([], Some (Error (''failed to login, status code: '' @ itoa (StatusCode resp)))), w1)
               else
                 (let sessionToken = Header_Get (RespHeader resp) ''X-Zerto-Session'' in
                  if sessionToken = [] then
                    (Return ([], Some (Error ''session token not found in headers'')), w1)
                  else (Return (sessionToken, None), w1))))"

definition queryVPGs_part000 ::
  "'n env \<Rightarrow> string \<Rightarrow> string \<Rightarrow> 'n world \<Rightarrow> (int64 \<times> error option) outcome \<times> 'n world" where
  "queryVPGs_part000 env serverIP sessionToken w =
     (let apiURL = ''https://'' @ serverIP @ '':'' @ itoa zertoAPIPort @ ''/v1/vpgs'' in
      case NewRequest env ''GET'' apiURL of
        None \<Rightarrow> (Panic nil_dereference, w)
      | Some req0 \<Rightarrow>
          (let req = req0\<lparr>ReqHeader := Header_Set (ReqHeader req0) ''X-Zerto-Session'' sessionToken\<rparr> in
           case client_Do env req w of
             (Inl err, w1) \<Rightarrow> (Return (0, Some err), w1)
           | (Inr resp, w1) \<Rightarrow>
               (case Body resp of
                  Inl err \<Rightarrow> (Return (0, Some err), w1)
                | Inr body \<Rightarrow>
                    (case Unmarshal_VPGs env body of
                       Inl err \<Rightarrow>
                         (Return (0, Some (Error (''error unmarshalling JSON: '' @ Error_msg err))), w1)
                     | Inr vpgs \<Rightarrow>
                         if len vpgs = 0 then (Return (0, None), w1)
                         else
                           (let totalRPO = sum_loop 0 vpgs in
                            case go_div totalRPO (len vpgs) of
                              None \<Rightarrow> (Panic ''runtime error: integer divide by zero'', w1)
                            | Some q \<Rightarrow> (Return (q, None), w1))))))"

definition main_part000 :: "'n env \<Rightarrow> string \<Rightarrow> string \<Rightarrow> 'n world \<Rightarrow> int \<times> 'n world" where
  "main_part000 env serverIP configFile w =
     (if configFile = [] then Fatal w ''Config file path is required''
      else
        case readConfig_part000 env configFile of
          (_, Some err) \<Rightarrow> Fatal w (''Error reading config file: '' @ Error_msg err)
        | (None, None) \<Rightarrow> crash w nil_dereference
        | (Some config, None) \<Rightarrow>
            (case loginToZerto_part000 env serverIP (Username config) (Password config) w of
               (Panic p, w1) \<Rightarrow> crash w1 p
             | (Return (_, Some err), w1) \<Rightarrow>
                 Fatal w1 (''Error logging in to Zerto API: '' @ Error_msg err)
             | (Return (sessionToken, None), w1) \<Rightarrow>
                 (case queryVPGs_part000 env serverIP sessionToken w1 of
                    (Panic p, w2) \<Rightarrow> crash w2 p
                  | (Return (_, Some err), w2) \<Rightarrow>
                      Fatal w2 (''Error querying VPGs: '' @ Error_msg err)
                  | (Return (averageRPO, None), w2) \<Rightarrow> (0, Println w2 (itoa averageRPO)))))"

section \<open>Vocabulary of the properties\<close>

text \<open>The request \<^verbatim>\<open>loginToZerto\<close> builds: a POST with the Basic-Auth header.\<close>

definition login_request :: "'n env \<Rightarrow> string \<Rightarrow> string \<Rightarrow> string \<Rightarrow> request" where
  "login_request env serverIP username password =
     \<lparr>Method = ''POST'', URL = ''https://'' @ serverIP @ '':9669/v1/session/add'',
      ReqHeader = [(''Authorization'', [''Basic '' @ basicAuth env username password])]\<rparr>"

text \<open>The request \<^verbatim>\<open>queryVPGs\<close> builds: a GET whose only header is the session token.\<close>

definition vpgs_request :: "string \<Rightarrow> string \<Rightarrow> request" where
  "vpgs_request serverIP sessionToken =
     \<lparr>Method = ''GET'', URL = ''https://'' @ serverIP @ '':9669/v1/vpgs'',
      ReqHeader = [(''X-Zerto-Session'', [sessionToken])]\<rparr>"

text \<open>The world after \<^verbatim>\<open>client.Do\<close> has taken a request and left the network in state \<open>n'\<close>.\<close>

definition after_Do :: "'n world \<Rightarrow> request \<Rightarrow> 'n \<Rightarrow> 'n world" where
  "after_Do w req n' = w\<lparr>net := n', sent := sent w @ [req]\<rparr>"

text \<open>The sum of the field over the integers, without wrap-around, and the exact mean.\<close>

definition total :: "VPG list \<Rightarrow> int" where
  "total vpgs = (\<Sum>vpg\<leftarrow>vpgs. sint (ActualRPO vpg))"

definition arithmetic_mean :: "VPG list \<Rightarrow> real" where
  "arithmetic_mean vpgs = real_of_int (total vpgs) / real (length vpgs)"

text \<open>
  The quotient Go computes: the sum in wrap-around 64-bit arithmetic, divided by the
  number of records, truncated toward zero.
\<close>

definition truncated_quotient :: "VPG list \<Rightarrow> int64" where
  "truncated_quotient vpgs =
     word_of_int (sint (sum_list (map ActualRPO vpgs)) sdiv int (length vpgs))"

text \<open>The same environment, except that every response carries the status \<open>s\<close>.\<close>

definition override_status :: "int64 \<Rightarrow> 'n env \<Rightarrow> 'n env" where
  "override_status s env =
     env\<lparr>Do := (\<lambda>n req. case Do env n req of
                     (Inl err, n') \<Rightarrow> (Inl err, n')
                   | (Inr resp, n') \<Rightarrow> (Inr (resp\<lparr>StatusCode := s\<rparr>), n'))\<rparr>"

text \<open>The file cannot be read, or its content does not parse into a \<^verbatim>\<open>Config\<close>.\<close>

definition config_unreadable :: "'n env \<Rightarrow> string \<Rightarrow> bool" where
  "config_unreadable env configFile =
     (case ReadFile env configFile of
        Inl err \<Rightarrow> True
      | Inr bytes \<Rightarrow> (case Unmarshal_Config env bytes of Inl err \<Rightarrow> True | Inr config \<Rightarrow> False))"

text \<open>A response header that is absent, has no value, or whose first value is empty.\<close>

definition header_missing :: "Header \<Rightarrow> string \<Rightarrow> bool" where
  "header_missing h key =
     (case map_of h key of None \<Rightarrow> True | Some [] \<Rightarrow> True | Some (v # vs) \<Rightarrow> v = [])"

text \<open>
  A concrete environment for evaluating the program: the config file holds \<open>cfg\<close>
  (or cannot be read or parsed), every URL is accepted, the server answers the POST with
  \<open>login\<close> and any other request with \<open>query\<close>, and the body of the latter decodes to
  \<open>decoded\<close>. The network state counts the requests.
\<close>

definition stub_env ::
  "(error + string) \<Rightarrow> (error + Config) \<Rightarrow> (error + response) \<Rightarrow> (error + response)
     \<Rightarrow> (error + VPG list) \<Rightarrow> nat env" where
  "stub_env file cfg login query decoded =
     \<lparr>ReadFile = (\<lambda>path. file),
      Unmarshal_Config = (\<lambda>bytes. cfg),
      Unmarshal_VPGs = (\<lambda>body. decoded),
      url_ok = (\<lambda>url. True),
      basicAuth = (\<lambda>username password. username @ '':'' @ password),
      Do = (\<lambda>n req. (if Method req = ''POST'' then login else query, Suc n))\<rparr>"

definition world0 :: "nat world" where
  "world0 = \<lparr>net = 0, stdout = [], logged = [], sent = []\<rparr>"

definition admin :: Config where
  "admin = \<lparr>Username = ''admin'', Password = ''secret''\<rparr>"

definition ok_login :: response where
  "ok_login = \<lparr>StatusCode = 200, RespHeader = [(''X-Zerto-Session'', [''abc123''])], Body = Inr []\<rparr>"

definition reply :: "int64 \<Rightarrow> response" where
  "reply status = \<lparr>StatusCode = status, RespHeader = [], Body = Inr ''[...]''\<rparr>"

section \<open>The file system and encoding/json behind \<^verbatim>\<open>readConfig\<close>\<close>

text \<open>
  What \<^verbatim>\<open>os.ReadFile\<close> finds under a name: no file (it fails with the given error),
  a file that cannot be read (permission denied, a directory, an I/O error; it fails with
  the given error), or a regular file with its bytes.
\<close>

datatype entry = Absent error | Unreadable error | Regular string

definition os_ReadFile :: "(string \<Rightarrow> entry) \<Rightarrow> string \<Rightarrow> error + string" where
  "os_ReadFile fs name =
     (case fs name of
        Absent err \<Rightarrow> Inl err
      | Unreadable err \<Rightarrow> Inl err
      | Regular bytes \<Rightarrow> Inr bytes)"

text \<open>A JSON value; a number keeps its literal, an object its members in order.\<close>

datatype json =
  JNull | JBool bool | JNumber string | JString string
  | JArray "json list" | JObject "(string \<times> json) list"

text \<open>
  The parts of \<^verbatim>\<open>encoding/json\<close> that stay parameters:
  \<^item> \<open>scan\<close>: the validity check and the reading of the text; \<open>Inl\<close> is the syntax error;
  \<^item> \<open>type_error\<close>: the \<^verbatim>\<open>UnmarshalTypeError\<close> for a JSON kind and a Go target;
  \<^item> \<open>fold_eq\<close>: whether an object key equals a field name under case folding.
\<close>

record encoding_json =
  scan :: "string \<Rightarrow> error + json"
  type_error :: "string \<Rightarrow> string \<Rightarrow> error"
  fold_eq :: "string \<Rightarrow> string \<Rightarrow> bool"

fun kind :: "json \<Rightarrow> string" where
  "kind JNull = ''null''"
| "kind (JBool b) = ''bool''"
| "kind (JNumber n) = ''number''"
| "kind (JString s) = ''string''"
| "kind (JArray vs) = ''array''"
| "kind (JObject ms) = ''object''"

text \<open>A key selects a field by its exact name or, failing that, by its folded name.\<close>

definition key_matches :: "encoding_json \<Rightarrow> string \<Rightarrow> string \<Rightarrow> bool" where
  "key_matches L key name = (key = name \<or> fold_eq L key name)"

text \<open>
  Decoding a value into a Go \<^verbatim>\<open>string\<close> field that holds \<open>old\<close>: a JSON string is stored,
  \<^verbatim>\<open>null\<close> leaves the field as it is, anything else is a type error and is skipped.
\<close>

fun store_string :: "encoding_json \<Rightarrow> string \<Rightarrow> json \<Rightarrow> string \<Rightarrow> string \<times> error option" where
  "store_string L field (JString s) old = (s, None)"
| "store_string L field JNull old = (old, None)"
| "store_string L field v old = (old, Some (type_error L (kind v) field))"

text \<open>The decoder keeps the first error and goes on.\<close>

definition saveError :: "error option \<Rightarrow> error option \<Rightarrow> error option" where
  "saveError saved err = (case saved of None \<Rightarrow> err | Some e \<Rightarrow> Some e)"

text \<open>
  Decoding the members of an object into a \<^verbatim>\<open>Config\<close>, whose fields are tagged
  \<^verbatim>\<open>username\<close> and \<^verbatim>\<open>password\<close>: in order, a later member overwriting an earlier one,
  members of other names skipped.
\<close>

fun object_into_Config ::
  "encoding_json \<Rightarrow> (string \<times> json) list \<Rightarrow> Config \<Rightarrow> error option \<Rightarrow> Config \<times> error option" where
  "object_into_Config L [] config saved = (config, saved)"
| "object_into_Config L ((key, v) # members) config saved =
     (if key_matches L key ''username'' then
        (case store_string L ''Config.username'' v (Username config) of
           (s, err) \<Rightarrow>
             object_into_Config L members (config\<lparr>Username := s\<rparr>) (saveError saved err))
      else if key_matches L key ''password'' then
        (case store_string L ''Config.password'' v (Password config) of
           (s, err) \<Rightarrow>
             object_into_Config L members (config\<lparr>Password := s\<rparr>) (saveError saved err))
      else object_into_Config L members config saved)"

text \<open>
  \<^verbatim>\<open>json.Unmarshal(bytes, &config)\<close> on the zero \<^verbatim>\<open>Config\<close> of \<^verbatim>\<open>var config Config\<close>:
  invalid text is a syntax error; \<^verbatim>\<open>null\<close> leaves the struct as it is; an object is
  decoded member by member; any other value is a type error.
\<close>

definition json_Unmarshal_Config :: "encoding_json \<Rightarrow> string \<Rightarrow> error + Config" where
  "json_Unmarshal_Config L bytes =
     (case scan L bytes of
        Inl err \<Rightarrow> Inl err
      | Inr v \<Rightarrow>
          (case v of
             JNull \<Rightarrow> Inr \<lparr>Username = [], Password = []\<rparr>
           | JObject members \<Rightarrow>
               (case object_into_Config L members \<lparr>Username = [], Password = []\<rparr> None of
                  (config, None) \<Rightarrow> Inr config
                | (config, Some err) \<Rightarrow> Inl err)
           | _ \<Rightarrow> Inl (type_error L (kind v) ''main.Config'')))"

text \<open>An environment whose \<^verbatim>\<open>os.ReadFile\<close> and \<^verbatim>\<open>json.Unmarshal\<close> are the two above.\<close>

definition on_files :: "(string \<Rightarrow> entry) \<Rightarrow> encoding_json \<Rightarrow> 'n env \<Rightarrow> 'n env" where
  "on_files fs L env =
     env\<lparr>ReadFile := os_ReadFile fs, Unmarshal_Config := json_Unmarshal_Config L\<rparr>"

text \<open>The config file is missing.\<close>

definition missing :: "(string \<Rightarrow> entry) \<Rightarrow> string \<Rightarrow> bool" where
  "missing fs name = (case fs name of Absent err \<Rightarrow> True | _ \<Rightarrow> False)"

text \<open>
  The structure the spec gives the config file, "JSON object with username/password":
  an object with a string member \<^verbatim>\<open>username\<close> and a string member \<^verbatim>\<open>password\<close>.
\<close>

definition credentials_object :: "json \<Rightarrow> bool" where
  "credentials_object v =
     (case v of
        JObject members \<Rightarrow>
          (case map_of members ''username'' of
             Some (JString u) \<Rightarrow>
               (case map_of members ''password'' of Some (JString p) \<Rightarrow> True | _ \<Rightarrow> False)
           | _ \<Rightarrow> False)
      | _ \<Rightarrow> False)"

text \<open>The content is malformed: not JSON at all, or JSON of another structure.\<close>

definition malformed :: "encoding_json \<Rightarrow> string \<Rightarrow> bool" where
  "malformed L bytes =
     (case scan L bytes of Inl err \<Rightarrow> True | Inr v \<Rightarrow> \<not> credentials_object v)"

fun string_or_null :: "json \<Rightarrow> bool" where
  "string_or_null (JString s) = True"
| "string_or_null JNull = True"
| "string_or_null v = False"

text \<open>A member that names one of the two fields and holds neither a string nor \<^verbatim>\<open>null\<close>.\<close>

definition bad_member :: "encoding_json \<Rightarrow> string \<times> json \<Rightarrow> bool" where
  "bad_member L m =
     ((key_matches L (fst m) ''username'' \<or> key_matches L (fst m) ''password'')
      \<and> \<not> string_or_null (snd m))"

text \<open>
  The contents \<^verbatim>\<open>json.Unmarshal\<close> rejects for a \<^verbatim>\<open>Config\<close>: invalid JSON, a value that is
  neither \<^verbatim>\<open>null\<close> nor an object, an object with a bad member.
\<close>

definition rejected :: "encoding_json \<Rightarrow> string \<Rightarrow> bool" where
  "rejected L bytes =
     (case scan L bytes of
        Inl err \<Rightarrow> True
      | Inr v \<Rightarrow>
          (case v of
             JNull \<Rightarrow> False
           | JObject members \<Rightarrow> list_ex (bad_member L) members
           | _ \<Rightarrow> True))"

text \<open>A member that names one of the two fields.\<close>

definition field_member :: "encoding_json \<Rightarrow> string \<times> json \<Rightarrow> bool" where
  "field_member L m =
     (key_matches L (fst m) ''username'' \<or> key_matches L (fst m) ''password'')"

text \<open>
  A concrete file system and JSON library for evaluating \<^verbatim>\<open>readConfig\<close>: four files,
  every other name absent; \<open>scan\<close> knows the texts of these files and takes any other
  text as invalid; names are compared with their ASCII letters in upper case.
\<close>

definition upper :: "char \<Rightarrow> char" where
  "upper c =
     (case map_of (zip ''abcdefghijklmnopqrstuvwxyz'' ''ABCDEFGHIJKLMNOPQRSTUVWXYZ'') c of
        None \<Rightarrow> c | Some u \<Rightarrow> u)"

definition stub_json :: encoding_json where
  \<open>stub_json =
     \<lparr>scan = (\<lambda>bytes.
         if bytes = ''null'' then Inr JNull
         else if bytes = ''{"user":"admin","pass":"secret"}'' then
           Inr (JObject [(''user'', JString ''admin''), (''pass'', JString ''secret'')])
         else if bytes = ''{"username":"admin","password":"secret"}'' then
           Inr (JObject [(''username'', JString ''admin''), (''password'', JString ''secret'')])
         else if bytes = ''{"Username":"admin","password":5}'' then
           Inr (JObject [(''Username'', JString ''admin''), (''password'', JNumber ''5'')])
         else Inl (Error ''invalid character'')),
      type_error = (\<lambda>k target. Error (''json: cannot unmarshal '' @ k @ '' into '' @ target)),
      fold_eq = (\<lambda>key name. map upper key = map upper name)\<rparr>\<close>

definition stub_files :: "string \<Rightarrow> entry" where
  \<open>stub_files name =
     (if name = ''null.json'' then Regular ''null''
      else if name = ''keys.json'' then Regular ''{"user":"admin","pass":"secret"}''
      else if name = ''zerto.json'' then Regular ''{"username":"admin","password":"secret"}''
      else if name = ''number.json'' then Regular ''{"Username":"admin","password":5}''
      else if name = ''broken.json'' then Regular ''{''
      else if name = ''/root/.zerto'' then Unreadable (Error ''open /root/.zerto: permission denied'')
      else Absent (Error (''open '' @ name @ '': no such file or directory'')))\<close>

definition stub_server :: "nat env" where
  "stub_server = stub_env (Inr []) (Inr admin) (Inr ok_login) (Inr (reply 200)) (Inr [])"

section \<open>Arithmetic of the aggregation\<close>

lemma sum_loop_eq: "sum_loop acc vpgs = acc + sum_list (map ActualRPO vpgs)"
  by (induction vpgs arbitrary: acc) (simp_all add: add.assoc)

lemma word_of_total: "word_of_int (total vpgs) = sum_list (map ActualRPO vpgs)"
  unfolding total_def by (induction vpgs) simp_all

lemma sint_len: "length xs < 2 ^ 63 \<Longrightarrow> sint (len xs) = int (length xs)"
  unfolding len_def by (simp add: signed_of_nat signed_take_bit_int_eq_self)

lemma len_eq_0: "length xs < 2 ^ 63 \<Longrightarrow> len xs = 0 \<longleftrightarrow> xs = []"
  using sint_len [of xs] by (auto simp: len_def)

lemma len_pos: "length xs < 2 ^ 63 \<Longrightarrow> 0 <s len xs \<longleftrightarrow> xs \<noteq> []"
  by (simp add: word_sless_alt sint_len)

lemma sdiv_pos_divisor:
  fixes t n :: int
  assumes "1 \<le> n"
  shows "t sdiv n = sgn t * (\<bar>t\<bar> div n)"
  using assms by (simp add: signed_divide_int_def)

lemma sdiv_between:
  fixes t n :: int
  assumes "1 \<le> n"
  shows "min 0 t \<le> t sdiv n \<and> t sdiv n \<le> max 0 t"
proof -
  have a: "0 \<le> \<bar>t\<bar> div n" using assms by (simp add: pos_imp_zdiv_nonneg_iff)
  have b: "\<bar>t\<bar> div n \<le> \<bar>t\<bar>" using assms
    by (metis abs_ge_zero div_by_1 zdiv_mono2 zero_less_one)
  show ?thesis
    unfolding sdiv_pos_divisor [OF assms]
    using a b by (cases "t < 0"; cases "t = 0") (auto simp: sgn_if)
qed

lemma sint_in_range:
  assumes "- (2 ^ 63) \<le> k" "k < 2 ^ 63"
  shows "sint (word_of_int k :: int64) = k"
proof -
  have "signed_take_bit 63 k = k"
    using assms by (intro signed_take_bit_int_eq_self) simp_all
  then show ?thesis by (simp add: sint_sbintrunc')
qed

lemma sint_quotient:
  fixes x :: int64
  assumes "1 \<le> n"
  shows "sint (word_of_int (sint x sdiv n) :: int64) = sint x sdiv n"
proof -
  have "- (2 ^ 63) \<le> sint x" "sint x < 2 ^ 63"
    using sint_ge [of x] sint_lt [of x] by simp_all
  with sdiv_between [OF assms, of "sint x"]
  have "- (2 ^ 63) \<le> sint x sdiv n" "sint x sdiv n < 2 ^ 63" by linarith+
  then show ?thesis by (rule sint_in_range)
qed

lemma go_div_len:
  assumes "vpgs \<noteq> []" "length vpgs < 2 ^ 63"
  shows "go_div t (len vpgs) = Some (word_of_int (sint t sdiv int (length vpgs)))"
  using assms by (simp add: go_div_def len_eq_0 sint_len)

lemma itoa_port: "itoa zertoAPIPort = ''9669''"
  by (simp add: zertoAPIPort_def itoa_def digits.simps)

section \<open>What the two functions do once the response is fixed\<close>

lemma queryVPGs_decoded:
  assumes "url_ok env (''https://'' @ serverIP @ '':9669/v1/vpgs'')"
    and "Do env (net w) (vpgs_request serverIP sessionToken) = (Inr resp, n')"
    and "Body resp = Inr body"
    and "Unmarshal_VPGs env body = Inr vpgs"
  shows "queryVPGs env serverIP sessionToken w =
     (if 0 <s len vpgs then
        (case go_div (sum_loop 0 vpgs) (len vpgs) of
           None \<Rightarrow> (Panic ''runtime error: integer divide by zero'',
                     after_Do w (vpgs_request serverIP sessionToken) n')
         | Some averageRPO \<Rightarrow>
             (Return None, Printf (after_Do w (vpgs_request serverIP sessionToken) n') (itoa averageRPO)))
      else (Return None, Println (after_Do w (vpgs_request serverIP sessionToken) n') ''No VPGs found.''))"
  using assms unfolding vpgs_request_def
  by (simp add: queryVPGs_def NewRequest_def client_Do_def Header_Set_def after_Do_def Let_def split: option.split)

lemma queryVPGs_part000_decoded:
  assumes "url_ok env (''https://'' @ serverIP @ '':9669/v1/vpgs'')"
    and "Do env (net w) (vpgs_request serverIP sessionToken) = (Inr resp, n')"
    and "Body resp = Inr body"
    and "Unmarshal_VPGs env body = Inr vpgs"
  shows "queryVPGs_part000 env serverIP sessionToken w =
     (if len vpgs = 0 then (Return (0, None), after_Do w (vpgs_request serverIP sessionToken) n')
      else
        (case go_div (sum_loop 0 vpgs) (len vpgs) of
           None \<Rightarrow> (Panic ''runtime error: integer divide by zero'',
                     after_Do w (vpgs_request serverIP sessionToken) n')
         | Some q \<Rightarrow> (Return (q, None), after_Do w (vpgs_request serverIP sessionToken) n')))"
  using assms unfolding vpgs_request_def
  by (simp add: queryVPGs_part000_def NewRequest_def client_Do_def Header_Set_def after_Do_def itoa_port Let_def split: option.split)

lemma loginToZerto_response:
  assumes "url_ok env (''https://'' @ serverIP @ '':9669/v1/session/add'')"
    and "Do env (net w) (login_request env serverIP username password) = (Inr resp, n')"
  shows "loginToZerto env serverIP username password w =
     (if StatusCode resp \<noteq> 200 then
        Return ([], Some (Error (''failed to login, status code: '' @ itoa (StatusCode resp))))
      else if Header_Get (RespHeader resp) ''X-Zerto-Session'' = [] then
        Return ([], Some (Error ''session token not found in headers''))
      else Return (Header_Get (RespHeader resp) ''X-Zerto-Session'', None),
      after_Do w (login_request env serverIP username password) n')"
  using assms unfolding login_request_def
  by (simp add: loginToZerto_def NewRequest_def SetBasicAuth_def client_Do_def Header_Set_def
      after_Do_def Let_def)

lemma loginToZerto_part000_eq:
  "loginToZerto_part000 env serverIP username password w =
   loginToZerto env serverIP username password w"
  by (simp add: loginToZerto_part000_def loginToZerto_def itoa_port)

lemma readConfig_part000_eq: "readConfig_part000 env configFile = readConfig env configFile"
  by (simp add: readConfig_part000_def readConfig_def)

lemma queryVPGs_nonempty:
  assumes "url_ok env (''https://'' @ serverIP @ '':9669/v1/vpgs'')"
    and "Do env (net w) (vpgs_request serverIP sessionToken) = (Inr resp, n')"
    and "Body resp = Inr body"
    and "Unmarshal_VPGs env body = Inr vpgs"
    and "vpgs \<noteq> []" and "length vpgs < 2 ^ 63"
  shows "queryVPGs env serverIP sessionToken w =
     (Return None, Printf (after_Do w (vpgs_request serverIP sessionToken) n')
                     (itoa (truncated_quotient vpgs)))"
  by (simp add: queryVPGs_decoded [OF assms(1-4)] len_pos [OF assms(6)] assms(5)
      go_div_len [OF assms(5,6)] sum_loop_eq truncated_quotient_def)

lemma queryVPGs_part000_nonempty:
  assumes "url_ok env (''https://'' @ serverIP @ '':9669/v1/vpgs'')"
    and "Do env (net w) (vpgs_request serverIP sessionToken) = (Inr resp, n')"
    and "Body resp = Inr body"
    and "Unmarshal_VPGs env body = Inr vpgs"
    and "vpgs \<noteq> []" and "length vpgs < 2 ^ 63"
  shows "queryVPGs_part000 env serverIP sessionToken w =
     (Return (truncated_quotient vpgs, None), after_Do w (vpgs_request serverIP sessionToken) n')"
  by (simp add: queryVPGs_part000_decoded [OF assms(1-4)] len_eq_0 [OF assms(6)] assms(5)
      go_div_len [OF assms(5,6)] sum_loop_eq truncated_quotient_def)

lemma queryVPGs_empty:
  assumes "url_ok env (''https://'' @ serverIP @ '':9669/v1/vpgs'')"
    and "Do env (net w) (vpgs_request serverIP sessionToken) = (Inr resp, n')"
    and "Body resp = Inr body"
    and "Unmarshal_VPGs env body = Inr []"
  shows "queryVPGs env serverIP sessionToken w =
     (Return None, Println (after_Do w (vpgs_request serverIP sessionToken) n') ''No VPGs found.'')"
  by (simp add: queryVPGs_decoded [OF assms] len_def)

lemma queryVPGs_part000_empty:
  assumes "url_ok env (''https://'' @ serverIP @ '':9669/v1/vpgs'')"
    and "Do env (net w) (vpgs_request serverIP sessionToken) = (Inr resp, n')"
    and "Body resp = Inr body"
    and "Unmarshal_VPGs env body = Inr []"
  shows "queryVPGs_part000 env serverIP sessionToken w =
     (Return (0, None), after_Do w (vpgs_request serverIP sessionToken) n')"
  by (simp add: queryVPGs_part000_decoded [OF assms] len_def)

section \<open>Further facts about the functions and the concrete environment\<close>

lemma main_after_login_error:
  assumes "configFile \<noteq> []"
    and "readConfig env configFile = (Some config, None)"
    and "loginToZerto env serverIP (Username config) (Password config) w =
           (Return (tok, Some err), w1)"
  shows "main env serverIP configFile w =
           Fatal w1 (''Error logging in to Zerto API: '' @ Error_msg err)"
    and "main_part000 env serverIP configFile w =
           Fatal w1 (''Error logging in to Zerto API: '' @ Error_msg err)"
  using assms
  by (simp_all add: main_def main_part000_def readConfig_part000_eq loginToZerto_part000_eq)

lemma header_missing_iff: "header_missing h key \<longleftrightarrow> Header_Get h key = []"
  by (simp add: header_missing_def Header_Get_def split: option.split list.split)

lemma readConfig_cases:
  "(\<exists>err. readConfig env configFile = (None, Some err) \<and> config_unreadable env configFile)
   \<or> (\<exists>config. readConfig env configFile = (Some config, None)
         \<and> \<not> config_unreadable env configFile)"
proof (cases "ReadFile env configFile")
  case (Inl err)
  then show ?thesis by (simp add: readConfig_def config_unreadable_def)
next
  case (Inr bytes)
  then show ?thesis
    by (cases "Unmarshal_Config env bytes") (simp_all add: readConfig_def config_unreadable_def)
qed

lemma readConfig_error_no_config:
  "snd (readConfig env configFile) \<noteq> None \<Longrightarrow> fst (readConfig env configFile) = None"
  using readConfig_cases [of env configFile] by auto

lemma main_config_error:
  assumes "snd (readConfig env configFile) \<noteq> None"
  shows "fst (main env serverIP configFile w) = 1"
    and "sent (snd (main env serverIP configFile w)) = sent w"
    and "stdout (snd (main env serverIP configFile w)) = stdout w"
    and "fst (main_part000 env serverIP configFile w) = 1"
    and "sent (snd (main_part000 env serverIP configFile w)) = sent w"
    and "stdout (snd (main_part000 env serverIP configFile w)) = stdout w"
  using assms
  by (auto simp: main_def main_part000_def readConfig_part000_eq Fatal_def
      split: prod.splits option.splits)

lemma queryVPGs_sent:
  assumes "url_ok env (''https://'' @ serverIP @ '':9669/v1/vpgs'')"
  shows "sent (snd (queryVPGs env serverIP sessionToken w)) =
           sent w @ [vpgs_request serverIP sessionToken]"
  using assms
  by (simp add: queryVPGs_def NewRequest_def client_Do_def Header_Set_def vpgs_request_def
      Printf_def Println_def Let_def split: prod.split sum.split option.split)

lemma queryVPGs_part000_sent:
  assumes "url_ok env (''https://'' @ serverIP @ '':9669/v1/vpgs'')"
  shows "sent (snd (queryVPGs_part000 env serverIP sessionToken w)) =
           sent w @ [vpgs_request serverIP sessionToken]"
  using assms
  by (simp add: queryVPGs_part000_def NewRequest_def client_Do_def Header_Set_def
      vpgs_request_def itoa_port Let_def split: prod.split sum.split option.split)

lemma main_sent_after_login:
  assumes "configFile \<noteq> []"
    and "readConfig env configFile = (Some config, None)"
    and "loginToZerto env serverIP (Username config) (Password config) w =
           (Return (tok, None), w1)"
  shows "sent (snd (main env serverIP configFile w)) =
           sent (snd (queryVPGs env serverIP tok w1))"
    and "sent (snd (main_part000 env serverIP configFile w)) =
           sent (snd (queryVPGs_part000 env serverIP tok w1))"
  using assms
  by (auto simp: main_def main_part000_def readConfig_part000_eq loginToZerto_part000_eq
      Fatal_def crash_def Println_def split: prod.splits option.splits outcome.splits)

lemma sint_truncated_quotient:
  assumes "vpgs \<noteq> []"
  shows "sint (truncated_quotient vpgs) =
           sint (sum_list (map ActualRPO vpgs)) sdiv int (length vpgs)"
proof -
  have "1 \<le> int (length vpgs)" using assms by (cases vpgs) simp_all
  then show ?thesis unfolding truncated_quotient_def by (rule sint_quotient)
qed

lemma itoa_7: "itoa 7 = ''7''"
  by (simp add: itoa_def digits.simps)

lemma mean_5_10: "arithmetic_mean [\<lparr>ActualRPO = 5\<rparr>, \<lparr>ActualRPO = 10\<rparr>] = 15 / 2"
  by (simp add: arithmetic_mean_def total_def)

lemma quotient_5_10: "truncated_quotient [\<lparr>ActualRPO = 5\<rparr>, \<lparr>ActualRPO = 10\<rparr>] = 7"
  by (simp add: truncated_quotient_def signed_divide_int_def)

lemma main_after_query:
  assumes "configFile \<noteq> []"
    and "readConfig env configFile = (Some config, None)"
    and "loginToZerto env serverIP (Username config) (Password config) w =
           (Return (tok, None), w1)"
  shows "queryVPGs env serverIP tok w1 = (Return None, w2) \<Longrightarrow>
           main env serverIP configFile w = (0, w2)"
    and "queryVPGs_part000 env serverIP tok w1 = (Return (q, None), w2) \<Longrightarrow>
           main_part000 env serverIP configFile w = (0, Println w2 (itoa q))"
  using assms
  by (simp_all add: main_def main_part000_def readConfig_part000_eq loginToZerto_part000_eq)

lemma itoa_0: "itoa 0 = ''0''"
  by (simp add: itoa_def digits.simps)

lemma stub_login:
  "loginToZerto (stub_env file cfg (Inr ok_login) query decoded) ''zvm''
      (Username admin) (Password admin) world0 =
     (Return (''abc123'', None),
      \<lparr>net = 1, stdout = [], logged = [],
       sent = [\<lparr>Method = ''POST'', URL = ''https://zvm:9669/v1/session/add'',
                ReqHeader = [(''Authorization'', [''Basic admin:secret''])]\<rparr>]\<rparr>)"
  by (subst loginToZerto_response [where resp = ok_login and n' = 1])
    (simp_all add: stub_env_def login_request_def world0_def ok_login_def Header_Get_def
      after_Do_def admin_def)

lemma mean_close_to_quotient:
  fixes t n :: int
  assumes "1 \<le> n"
  shows "\<bar>real_of_int t / real_of_int n - real_of_int (t sdiv n)\<bar> < 1"
proof -
  define a where "a = \<bar>t\<bar>"
  have n: "0 < real_of_int n" using assms by simp
  have "a = (a div n) * n + a mod n" by simp
  then have "real_of_int a = real_of_int ((a div n) * n + a mod n)" by simp
  then have e: "real_of_int a = real_of_int (a div n) * real_of_int n + real_of_int (a mod n)"
    by (simp only: of_int_add of_int_mult)
  have m: "0 \<le> a mod n" "a mod n < n" using assms by simp_all
  have d: "real_of_int a / real_of_int n - real_of_int (a div n)
             = real_of_int (a mod n) / real_of_int n"
    using n by (simp add: e field_simps)
  have r: "0 \<le> real_of_int (a mod n) / real_of_int n"
          "real_of_int (a mod n) / real_of_int n < 1"
    using m n by simp_all
  have s: "t sdiv n = sgn t * (a div n)"
    unfolding a_def by (rule sdiv_pos_divisor [OF assms])
  have t: "real_of_int t = real_of_int (sgn t) * real_of_int a"
    unfolding a_def by (simp only: of_int_mult [symmetric] sgn_mult_abs)
  have "real_of_int t / real_of_int n - real_of_int (t sdiv n)
          = real_of_int (sgn t) * (real_of_int a / real_of_int n - real_of_int (a div n))"
    unfolding s by (subst t) (simp add: algebra_simps)
  then show ?thesis
    unfolding d using r by (cases "t < 0"; cases "t = 0") (simp_all add: sgn_if abs_if)
qed

lemma mean_exact_when_divisible:
  fixes t n :: int
  assumes "1 \<le> n" "n dvd t"
  shows "real_of_int (t sdiv n) = real_of_int t / real_of_int n"
proof -
  from assms(2) obtain k where k: "t = n * k" ..
  have "\<bar>t\<bar> = n * \<bar>k\<bar>" using assms(1) by (simp add: k abs_mult)
  then have "\<bar>t\<bar> div n = \<bar>k\<bar>" using assms(1) by simp
  moreover have "sgn t = sgn k" using assms(1) by (simp add: k sgn_mult)
  ultimately have "t sdiv n = k"
    unfolding sdiv_pos_divisor [OF assms(1)] by (simp add: sgn_mult_abs)
  then show ?thesis using assms(1) by (simp add: k)
qed

lemma sint_sum_in_range:
  assumes "- (2 ^ 63) \<le> total vpgs" "total vpgs < 2 ^ 63"
  shows "sint (sum_list (map ActualRPO vpgs)) = total vpgs"
  unfolding word_of_total [symmetric] using assms by (rule sint_in_range)

lemma queryVPGs_override_status:
  "queryVPGs (override_status s env) serverIP sessionToken w =
   queryVPGs env serverIP sessionToken w"
  by (simp add: queryVPGs_def NewRequest_def client_Do_def override_status_def Let_def
      split: prod.split sum.split)

lemma queryVPGs_part000_override_status:
  "queryVPGs_part000 (override_status s env) serverIP sessionToken w =
   queryVPGs_part000 env serverIP sessionToken w"
  by (simp add: queryVPGs_part000_def NewRequest_def client_Do_def override_status_def Let_def
      split: prod.split sum.split)

lemma queryVPGs_undecodable:
  assumes "url_ok env (''https://'' @ serverIP @ '':9669/v1/vpgs'')"
    and "Do env (net w) (vpgs_request serverIP sessionToken) = (Inr resp, n')"
    and "Body resp = Inr body"
    and "Unmarshal_VPGs env body = Inl err"
  shows "queryVPGs env serverIP sessionToken w =
           (Return (Some (Error (''error unmarshalling JSON: '' @ Error_msg err))),
            after_Do w (vpgs_request serverIP sessionToken) n')"
    and "queryVPGs_part000 env serverIP sessionToken w =
           (Return (0, Some (Error (''error unmarshalling JSON: '' @ Error_msg err))),
            after_Do w (vpgs_request serverIP sessionToken) n')"
  using assms unfolding vpgs_request_def
  by (simp_all add: queryVPGs_def queryVPGs_part000_def NewRequest_def client_Do_def
      Header_Set_def after_Do_def itoa_port Let_def)

section \<open>Reading and decoding the config file\<close>

lemma store_string_error: "snd (store_string L field v old) = None \<longleftrightarrow> string_or_null v"
  by (cases v) simp_all

lemma saveError_None: "saveError saved err = None \<longleftrightarrow> saved = None \<and> err = None"
  by (simp add: saveError_def split: option.split)

lemma object_into_Config_error:
  "snd (object_into_Config L members config saved) = None \<longleftrightarrow>
     saved = None \<and> \<not> list_ex (bad_member L) members"
proof (induction members arbitrary: config saved)
  case Nil
  show ?case by simp
next
  case (Cons m members)
  obtain key v where m: "m = (key, v)" by (cases m)
  show ?case
  proof (cases "key_matches L key ''username''")
    case True
    obtain s err where st: "store_string L ''Config.username'' v (Username config) = (s, err)"
      by (cases "store_string L ''Config.username'' v (Username config)")
    have "err = None \<longleftrightarrow> string_or_null v"
      using store_string_error [of L "''Config.username''" v "Username config"] st by simp
    then show ?thesis
      using True by (auto simp: m st Cons.IH saveError_None bad_member_def)
  next
    case u: False
    show ?thesis
    proof (cases "key_matches L key ''password''")
      case True
      obtain s err where st: "store_string L ''Config.password'' v (Password config) = (s, err)"
        by (cases "store_string L ''Config.password'' v (Password config)")
      have "err = None \<longleftrightarrow> string_or_null v"
        using store_string_error [of L "''Config.password''" v "Password config"] st by simp
      then show ?thesis
        using u True by (auto simp: m st Cons.IH saveError_None bad_member_def)
    next
      case False
      then show ?thesis
        using u by (simp add: m Cons.IH bad_member_def)
    qed
  qed
qed

lemma object_into_Config_skips:
  "\<not> list_ex (field_member L) members \<Longrightarrow>
     object_into_Config L members config saved = (config, saved)"
  by (induction members arbitrary: config saved) (auto simp: field_member_def)

lemma json_Unmarshal_Config_rejects:
  "isl (json_Unmarshal_Config L bytes) \<longleftrightarrow> rejected L bytes"
proof (cases "scan L bytes")
  case (Inl err)
  then show ?thesis by (simp add: json_Unmarshal_Config_def rejected_def)
next
  case (Inr v)
  show ?thesis
  proof (cases v)
    case (JObject members)
    obtain config saved
      where o: "object_into_Config L members \<lparr>Username = [], Password = []\<rparr> None = (config, saved)"
      by (cases "object_into_Config L members \<lparr>Username = [], Password = []\<rparr> None")
    have "saved = None \<longleftrightarrow> \<not> list_ex (bad_member L) members"
      using object_into_Config_error [of L members "\<lparr>Username = [], Password = []\<rparr>" None] o
      by simp
    then show ?thesis
      by (cases saved) (simp_all add: json_Unmarshal_Config_def rejected_def Inr JObject o)
  qed (simp_all add: json_Unmarshal_Config_def rejected_def Inr)
qed

lemma readConfig_on_files:
  "readConfig (on_files fs L env) configFile =
     (case fs configFile of
        Absent err \<Rightarrow> (None, Some err)
      | Unreadable err \<Rightarrow> (None, Some err)
      | Regular bytes \<Rightarrow>
          (case json_Unmarshal_Config L bytes of
             Inl err \<Rightarrow> (None, Some err)
           | Inr config \<Rightarrow> (Some config, None)))"
  by (simp add: readConfig_def on_files_def os_ReadFile_def split: entry.split)

lemma readConfig_on_files_error:
  "snd (readConfig (on_files fs L env) configFile) \<noteq> None \<longleftrightarrow>
     (case fs configFile of Regular bytes \<Rightarrow> rejected L bytes | _ \<Rightarrow> True)"
proof (cases "fs configFile")
  case (Regular bytes)
  show ?thesis
    using json_Unmarshal_Config_rejects [of L bytes]
    by (cases "json_Unmarshal_Config L bytes") (simp_all add: readConfig_on_files Regular)
qed (simp_all add: readConfig_on_files)

section \<open>The claims\<close>

text \<open>
  C1. As stated: for every response body that decodes to a non-empty list of records,
  \<^verbatim>\<open>queryVPGs\<close> computes and outputs the arithmetic mean of \<^verbatim>\<open>ActualRPO\<close>. The field,
  the sum and the quotient are Go \<^verbatim>\<open>int\<close>s, so this fails whenever the count does not
  divide the sum (the counterexample follows the witness).

  Amended: for every response body that decodes to a non-empty list of records,
  \<^verbatim>\<open>queryVPGs\<close> outputs the sum of the \<^verbatim>\<open>ActualRPO\<close> values, taken in 64-bit wrap-around
  arithmetic, divided by the number of records with the quotient truncated toward zero.
  When the exact sum fits in 64 bits, the output is the exact sum's truncated quotient,
  it differs from the arithmetic mean by less than 1, and it is the arithmetic mean when
  the count divides the sum.
\<close>

theorem average_within_one_of_mean:
  assumes "url_ok env (''https://'' @ serverIP @ '':9669/v1/vpgs'')"
    and "Do env (net w) (vpgs_request serverIP sessionToken) = (Inr resp, n')"
    and "Body resp = Inr body"
    and "Unmarshal_VPGs env body = Inr vpgs"
    and "vpgs \<noteq> []" and "length vpgs < 2 ^ 63"
  shows "queryVPGs env serverIP sessionToken w =
           (Return None, Printf (after_Do w (vpgs_request serverIP sessionToken) n')
                           (itoa (truncated_quotient vpgs)))
       \<and> queryVPGs_part000 env serverIP sessionToken w =
           (Return (truncated_quotient vpgs, None),
            after_Do w (vpgs_request serverIP sessionToken) n')
       \<and> (- (2 ^ 63) \<le> total vpgs \<and> total vpgs < 2 ^ 63 \<longrightarrow>
            sint (truncated_quotient vpgs) = total vpgs sdiv int (length vpgs)
          \<and> \<bar>arithmetic_mean vpgs - real_of_int (sint (truncated_quotient vpgs))\<bar> < 1
          \<and> (int (length vpgs) dvd total vpgs \<longrightarrow>
               real_of_int (sint (truncated_quotient vpgs)) = arithmetic_mean vpgs))"
proof -
  have n: "1 \<le> int (length vpgs)" using assms(5) by (cases vpgs) simp_all
  have "sint (truncated_quotient vpgs) = total vpgs sdiv int (length vpgs)
      \<and> \<bar>arithmetic_mean vpgs - real_of_int (sint (truncated_quotient vpgs))\<bar> < 1
      \<and> (int (length vpgs) dvd total vpgs \<longrightarrow>
           real_of_int (sint (truncated_quotient vpgs)) = arithmetic_mean vpgs)"
    if r: "- (2 ^ 63) \<le> total vpgs" "total vpgs < 2 ^ 63"
  proof -
    have q: "sint (truncated_quotient vpgs) = total vpgs sdiv int (length vpgs)"
      by (simp only: sint_truncated_quotient [OF assms(5)] sint_sum_in_range [OF r])
    show ?thesis
      unfolding q arithmetic_mean_def
      using mean_close_to_quotient [OF n, of "total vpgs"]
        mean_exact_when_divisible [OF n, of "total vpgs"]
      by simp
  qed
  then show ?thesis
    using queryVPGs_nonempty [OF assms] queryVPGs_part000_nonempty [OF assms] by blast
qed

theorem average_within_one_of_mean_witness:
  "stdout (snd (queryVPGs (stub_env (Inr ''{}'') (Inr admin) (Inr ok_login) (Inr (reply 200))
         (Inr [\<lparr>ActualRPO = 5\<rparr>, \<lparr>ActualRPO = 15\<rparr>])) ''zvm'' ''abc123'' world0)) =
     itoa (truncated_quotient [\<lparr>ActualRPO = 5\<rparr>, \<lparr>ActualRPO = 15\<rparr>])
   \<and> total [\<lparr>ActualRPO = 5\<rparr>, \<lparr>ActualRPO = 15\<rparr>] = 20
   \<and> real_of_int (sint (truncated_quotient [\<lparr>ActualRPO = 5\<rparr>, \<lparr>ActualRPO = 15\<rparr>])) =
       arithmetic_mean [\<lparr>ActualRPO = 5\<rparr>, \<lparr>ActualRPO = 15\<rparr>]
   \<and> arithmetic_mean [\<lparr>ActualRPO = 5\<rparr>, \<lparr>ActualRPO = 15\<rparr>] = 10"
proof -
  have t: "total [\<lparr>ActualRPO = 5\<rparr>, \<lparr>ActualRPO = 15\<rparr>] = 20"
    by (simp add: total_def)
  have m: "arithmetic_mean [\<lparr>ActualRPO = 5\<rparr>, \<lparr>ActualRPO = 15\<rparr>] = 10"
    by (simp add: arithmetic_mean_def t)
  show ?thesis
    using average_within_one_of_mean [of
      "stub_env (Inr ''{}'') (Inr admin) (Inr ok_login) (Inr (reply 200))
         (Inr [\<lparr>ActualRPO = 5\<rparr>, \<lparr>ActualRPO = 15\<rparr>])"
      "''zvm''" world0 "''abc123''" "reply 200" 1 "''[...]''"
      "[\<lparr>ActualRPO = 5\<rparr>, \<lparr>ActualRPO = 15\<rparr>]"]
    by (simp add: stub_env_def world0_def vpgs_request_def reply_def Printf_def after_Do_def t m)
qed

text \<open>
  The records \<open>[{5}, {10}]\<close> have mean 7.5; \<^verbatim>\<open>src/main.go\<close> prints \<^verbatim>\<open>7\<close>.
\<close>

theorem mean_of_5_and_10_not_printed:
  "queryVPGs (stub_env (Inr ''{}'') (Inr admin) (Inr ok_login) (Inr (reply 200))
         (Inr [\<lparr>ActualRPO = 5\<rparr>, \<lparr>ActualRPO = 10\<rparr>])) ''zvm'' ''abc123'' world0 =
     (Return None,
      \<lparr>net = 1, stdout = itoa 7, logged = [], sent = [vpgs_request ''zvm'' ''abc123'']\<rparr>)
   \<and> itoa 7 = ''7''
   \<and> arithmetic_mean [\<lparr>ActualRPO = 5\<rparr>, \<lparr>ActualRPO = 10\<rparr>] = 15 / 2
   \<and> real_of_int (sint (7 :: int64)) \<noteq> arithmetic_mean [\<lparr>ActualRPO = 5\<rparr>, \<lparr>ActualRPO = 10\<rparr>]"
proof -
  let ?E = "stub_env (Inr ''{}'') (Inr admin) (Inr ok_login) (Inr (reply 200))
         (Inr [\<lparr>ActualRPO = 5\<rparr>, \<lparr>ActualRPO = 10\<rparr>])"
  have "queryVPGs ?E ''zvm'' ''abc123'' world0 =
     (Return None, Printf (after_Do world0 (vpgs_request ''zvm'' ''abc123'') 1)
        (itoa (truncated_quotient [\<lparr>ActualRPO = 5\<rparr>, \<lparr>ActualRPO = 10\<rparr>])))"
    by (rule queryVPGs_nonempty [where resp = "reply 200" and body = "''[...]''"])
      (simp_all add: stub_env_def world0_def reply_def vpgs_request_def)
  then show ?thesis
    by (simp add: quotient_5_10 itoa_7 mean_5_10 Printf_def after_Do_def world0_def)
qed

text \<open>
  C2. If the decoded record list is empty, \<^verbatim>\<open>queryVPGs\<close> produces a defined neutral
  result and performs no division: \<^verbatim>\<open>src/main.go\<close> prints the line \<^verbatim>\<open>No VPGs found.\<close> and
  returns a nil error, \<^verbatim>\<open>src/unnamed/part_000\<close> returns 0 and a nil error. Neither panics.
\<close>

theorem empty_list_neutral:
  assumes "url_ok env (''https://'' @ serverIP @ '':9669/v1/vpgs'')"
    and "Do env (net w) (vpgs_request serverIP sessionToken) = (Inr resp, n')"
    and "Body resp = Inr body"
    and "Unmarshal_VPGs env body = Inr []"
  shows "queryVPGs env serverIP sessionToken w =
           (Return None,
            Println (after_Do w (vpgs_request serverIP sessionToken) n') ''No VPGs found.'')
       \<and> queryVPGs_part000 env serverIP sessionToken w =
           (Return (0, None), after_Do w (vpgs_request serverIP sessionToken) n')"
  using queryVPGs_empty [OF assms] queryVPGs_part000_empty [OF assms] by simp

theorem empty_list_neutral_witness:
  "queryVPGs (stub_env (Inr ''{}'') (Inr admin) (Inr ok_login) (Inr (reply 200)) (Inr []))
      ''zvm'' ''abc123'' world0 =
     (Return None,
      \<lparr>net = 1, stdout = ''No VPGs found.'' @ [CHR 0x0A], logged = [],
       sent = [vpgs_request ''zvm'' ''abc123'']\<rparr>)
   \<and> queryVPGs_part000 (stub_env (Inr ''{}'') (Inr admin) (Inr ok_login) (Inr (reply 200)) (Inr []))
      ''zvm'' ''abc123'' world0 =
     (Return (0, None),
      \<lparr>net = 1, stdout = [], logged = [], sent = [vpgs_request ''zvm'' ''abc123'']\<rparr>)"
  using empty_list_neutral [of
      "stub_env (Inr ''{}'') (Inr admin) (Inr ok_login) (Inr (reply 200)) (Inr [])"
      "''zvm''" world0 "''abc123''" "reply 200" 1 "''[...]''"]
  by (simp add: stub_env_def world0_def vpgs_request_def reply_def Println_def after_Do_def)

text \<open>
  C3. If the login POST is answered with a status other than 200, \<^verbatim>\<open>loginToZerto\<close>
  returns the empty token and an error, and \<open>main\<close> logs it and exits with status 1
  having sent the POST only: no GET is issued and nothing is printed.
\<close>

theorem login_status_not_200:
  assumes "url_ok env (''https://'' @ serverIP @ '':9669/v1/session/add'')"
    and "Do env (net w) (login_request env serverIP (Username config) (Password config)) =
           (Inr resp, n')"
    and "StatusCode resp \<noteq> 200"
    and "configFile \<noteq> []"
    and "readConfig env configFile = (Some config, None)"
  shows "loginToZerto env serverIP (Username config) (Password config) w =
           (Return ([], Some (Error (''failed to login, status code: '' @ itoa (StatusCode resp)))),
            after_Do w (login_request env serverIP (Username config) (Password config)) n')
       \<and> loginToZerto_part000 env serverIP (Username config) (Password config) w =
           (Return ([], Some (Error (''failed to login, status code: '' @ itoa (StatusCode resp)))),
            after_Do w (login_request env serverIP (Username config) (Password config)) n')
       \<and> main env serverIP configFile w =
           (1, (after_Do w (login_request env serverIP (Username config) (Password config)) n')
                 \<lparr>logged := logged w @
                    [''Error logging in to Zerto API: failed to login, status code: ''
                       @ itoa (StatusCode resp)]\<rparr>)
       \<and> main_part000 env serverIP configFile w = main env serverIP configFile w
       \<and> sent (snd (main env serverIP configFile w)) =
           sent w @ [login_request env serverIP (Username config) (Password config)]
       \<and> stdout (snd (main env serverIP configFile w)) = stdout w"
proof -
  let ?e = "Error (''failed to login, status code: '' @ itoa (StatusCode resp))"
  let ?w1 = "after_Do w (login_request env serverIP (Username config) (Password config)) n'"
  have l: "loginToZerto env serverIP (Username config) (Password config) w =
             (Return ([], Some ?e), ?w1)"
    using loginToZerto_response [OF assms(1,2)] assms(3) by simp
  have m: "main env serverIP configFile w =
             Fatal ?w1 (''Error logging in to Zerto API: '' @ Error_msg ?e)"
    and m0: "main_part000 env serverIP configFile w =
             Fatal ?w1 (''Error logging in to Zerto API: '' @ Error_msg ?e)"
    using main_after_login_error [OF assms(4,5) l] by simp_all
  show ?thesis
    unfolding m0 m l loginToZerto_part000_eq
    by (simp add: Fatal_def after_Do_def)
qed

theorem login_status_not_200_witness:
  "main (stub_env (Inr ''{}'') (Inr admin) (Inr (reply 401)) (Inr (reply 200))
           (Inr [\<lparr>ActualRPO = 5\<rparr>]))
      ''zvm'' ''zerto.json'' world0 =
     (1, \<lparr>net = 1, stdout = [],
          logged = [''Error logging in to Zerto API: failed to login, status code: 401''],
          sent = [\<lparr>Method = ''POST'', URL = ''https://zvm:9669/v1/session/add'',
                   ReqHeader = [(''Authorization'', [''Basic admin:secret''])]\<rparr>]\<rparr>)"
proof -
  have i: "itoa 401 = ''401''" by (simp add: itoa_def digits.simps)
  show ?thesis
    using login_status_not_200 [of
      "stub_env (Inr ''{}'') (Inr admin) (Inr (reply 401)) (Inr (reply 200))
         (Inr [\<lparr>ActualRPO = 5\<rparr>])"
      "''zvm''" world0 admin "reply 401" 1 "''zerto.json''"]
    by (simp add: stub_env_def world0_def login_request_def reply_def after_Do_def admin_def
        readConfig_def i)
qed

text \<open>
  C4. If the login POST is answered with status 200 but the \<^verbatim>\<open>X-Zerto-Session\<close> header is
  absent or empty, \<^verbatim>\<open>loginToZerto\<close> returns an error and no token.
\<close>

theorem login_without_session_header:
  assumes "url_ok env (''https://'' @ serverIP @ '':9669/v1/session/add'')"
    and "Do env (net w) (login_request env serverIP username password) = (Inr resp, n')"
    and "StatusCode resp = 200"
    and "header_missing (RespHeader resp) ''X-Zerto-Session''"
  shows "loginToZerto env serverIP username password w =
           (Return ([], Some (Error ''session token not found in headers'')),
            after_Do w (login_request env serverIP username password) n')
       \<and> loginToZerto_part000 env serverIP username password w =
           (Return ([], Some (Error ''session token not found in headers'')),
            after_Do w (login_request env serverIP username password) n')"
  using loginToZerto_response [OF assms(1,2)] assms(3,4)
  by (simp add: loginToZerto_part000_eq header_missing_iff)

theorem login_without_session_header_witness:
  "fst (loginToZerto
      (stub_env (Inr ''{}'') (Inr admin)
         (Inr \<lparr>StatusCode = 200, RespHeader = [(''Content-Length'', [''0''])], Body = Inr []\<rparr>)
         (Inr (reply 200)) (Inr []))
      ''zvm'' ''admin'' ''secret'' world0) =
     Return ([], Some (Error ''session token not found in headers''))
   \<and> fst (loginToZerto
      (stub_env (Inr ''{}'') (Inr admin)
         (Inr \<lparr>StatusCode = 200, RespHeader = [(''X-Zerto-Session'', [[]])], Body = Inr []\<rparr>)
         (Inr (reply 200)) (Inr []))
      ''zvm'' ''admin'' ''secret'' world0) =
     Return ([], Some (Error ''session token not found in headers''))"
  using login_without_session_header [of
      "stub_env (Inr ''{}'') (Inr admin)
         (Inr \<lparr>StatusCode = 200, RespHeader = [(''Content-Length'', [''0''])], Body = Inr []\<rparr>)
         (Inr (reply 200)) (Inr [])"
      "''zvm''" world0 "''admin''" "''secret''"
      "\<lparr>StatusCode = 200, RespHeader = [(''Content-Length'', [''0''])], Body = Inr []\<rparr>" 1]
    login_without_session_header [of
      "stub_env (Inr ''{}'') (Inr admin)
         (Inr \<lparr>StatusCode = 200, RespHeader = [(''X-Zerto-Session'', [[]])], Body = Inr []\<rparr>)
         (Inr (reply 200)) (Inr [])"
      "''zvm''" world0 "''admin''" "''secret''"
      "\<lparr>StatusCode = 200, RespHeader = [(''X-Zerto-Session'', [[]])], Body = Inr []\<rparr>" 1]
  by (simp add: stub_env_def world0_def login_request_def header_missing_def)

text \<open>
  C5. As stated: \<^verbatim>\<open>readConfig\<close> returns an error (and no \<^verbatim>\<open>Config\<close>) exactly when the config
  file is missing or its structure is malformed, and the process then exits with a
  nonzero status. The code checks the structure no further than \<^verbatim>\<open>json.Unmarshal\<close> does:
  a file holding \<^verbatim>\<open>null\<close>, or an object with other keys, is accepted with empty
  credentials (the counterexample follows the witness).

  Amended: \<^verbatim>\<open>readConfig\<close> returns an error (and no \<^verbatim>\<open>Config\<close>) exactly when
  \<^verbatim>\<open>os.ReadFile\<close> fails (the file is missing or cannot be read) or \<^verbatim>\<open>json.Unmarshal\<close>
  rejects the content: it is not valid JSON, or a value other than \<^verbatim>\<open>null\<close> or an
  object, or an object in which a member named \<^verbatim>\<open>username\<close> or \<^verbatim>\<open>password\<close> (exactly or
  under case folding) holds something other than a string or \<^verbatim>\<open>null\<close>. A content of
  \<^verbatim>\<open>null\<close>, or an object without such members, is accepted with both fields empty. On
  any such error the process exits with status 1 and sends no request.
\<close>

theorem readConfig_fails_when_read_or_decode_fails:
  "(snd (readConfig (on_files fs L env) configFile) \<noteq> None \<longleftrightarrow>
      (case fs configFile of Regular bytes \<Rightarrow> rejected L bytes | _ \<Rightarrow> True))
   \<and> (snd (readConfig (on_files fs L env) configFile) \<noteq> None \<longrightarrow>
        fst (readConfig (on_files fs L env) configFile) = None
      \<and> fst (main (on_files fs L env) serverIP configFile w) = 1
      \<and> sent (snd (main (on_files fs L env) serverIP configFile w)) = sent w
      \<and> fst (main_part000 (on_files fs L env) serverIP configFile w) = 1
      \<and> sent (snd (main_part000 (on_files fs L env) serverIP configFile w)) = sent w)
   \<and> (snd (readConfig (on_files fs L env) configFile) = None \<longrightarrow>
        (\<exists>config. readConfig (on_files fs L env) configFile = (Some config, None)))
   \<and> (fs configFile = Regular bytes \<and> scan L bytes = Inr JNull \<longrightarrow>
        readConfig (on_files fs L env) configFile =
          (Some \<lparr>Username = [], Password = []\<rparr>, None))
   \<and> (fs configFile = Regular bytes \<and> scan L bytes = Inr (JObject members)
        \<and> \<not> list_ex (field_member L) members \<longrightarrow>
        readConfig (on_files fs L env) configFile =
          (Some \<lparr>Username = [], Password = []\<rparr>, None))
   \<and> readConfig_part000 (on_files fs L env) configFile =
       readConfig (on_files fs L env) configFile"
proof -
  let ?E = "on_files fs L env"
  have a: "snd (readConfig ?E configFile) \<noteq> None \<longleftrightarrow>
      (case fs configFile of Regular bytes \<Rightarrow> rejected L bytes | _ \<Rightarrow> True)"
    by (rule readConfig_on_files_error)
  have b: "fst (readConfig ?E configFile) = None
      \<and> fst (main ?E serverIP configFile w) = 1
      \<and> sent (snd (main ?E serverIP configFile w)) = sent w
      \<and> fst (main_part000 ?E serverIP configFile w) = 1
      \<and> sent (snd (main_part000 ?E serverIP configFile w)) = sent w"
    if "snd (readConfig ?E configFile) \<noteq> None"
    using main_config_error [OF that, of serverIP w] readConfig_error_no_config [OF that]
    by simp
  have c: "\<exists>config. readConfig ?E configFile = (Some config, None)"
    if "snd (readConfig ?E configFile) = None"
    using readConfig_cases [of ?E configFile] that by auto
  have d: "readConfig ?E configFile = (Some \<lparr>Username = [], Password = []\<rparr>, None)"
    if "fs configFile = Regular bytes" "scan L bytes = Inr JNull"
    using that by (simp add: readConfig_on_files json_Unmarshal_Config_def)
  have e: "readConfig ?E configFile = (Some \<lparr>Username = [], Password = []\<rparr>, None)"
    if "fs configFile = Regular bytes" "scan L bytes = Inr (JObject members)"
      "\<not> list_ex (field_member L) members"
    using that
    by (simp add: readConfig_on_files json_Unmarshal_Config_def object_into_Config_skips)
  show ?thesis
    using a b c d e readConfig_part000_eq [of ?E configFile] by blast
qed

theorem readConfig_fails_when_read_or_decode_fails_witness:
  \<open>readConfig (on_files stub_files stub_json stub_server) ''nowhere.json'' =
     (None, Some (Error ''open nowhere.json: no such file or directory''))
   \<and> fst (main (on_files stub_files stub_json stub_server) ''zvm'' ''nowhere.json'' world0) = 1
   \<and> snd (readConfig (on_files stub_files stub_json stub_server) ''/root/.zerto'') \<noteq> None
   \<and> rejected stub_json ''{''
   \<and> snd (readConfig (on_files stub_files stub_json stub_server) ''broken.json'') \<noteq> None
   \<and> fst (main (on_files stub_files stub_json stub_server) ''zvm'' ''broken.json'' world0) = 1
   \<and> rejected stub_json ''{"Username":"admin","password":5}''
   \<and> snd (readConfig (on_files stub_files stub_json stub_server) ''number.json'') \<noteq> None
   \<and> \<not> rejected stub_json ''{"username":"admin","password":"secret"}''
   \<and> readConfig (on_files stub_files stub_json stub_server) ''zerto.json'' = (Some admin, None)\<close>
proof -
  note t = readConfig_fails_when_read_or_decode_fails [of stub_files stub_json stub_server _
      \<open>''zvm''\<close> world0 \<open>''null''\<close> \<open>[]\<close>]
  have r: \<open>rejected stub_json ''{''\<close>
    \<open>rejected stub_json ''{"Username":"admin","password":5}''\<close>
    \<open>\<not> rejected stub_json ''{"username":"admin","password":"secret"}''\<close>
    by (simp_all add: rejected_def stub_json_def bad_member_def key_matches_def upper_def)
  have f: \<open>stub_files ''nowhere.json'' = Absent (Error ''open nowhere.json: no such file or directory'')\<close>
    \<open>stub_files ''/root/.zerto'' = Unreadable (Error ''open /root/.zerto: permission denied'')\<close>
    \<open>stub_files ''broken.json'' = Regular ''{''\<close>
    \<open>stub_files ''number.json'' = Regular ''{"Username":"admin","password":5}''\<close>
    \<open>stub_files ''zerto.json'' = Regular ''{"username":"admin","password":"secret"}''\<close>
    by (simp_all add: stub_files_def)
  have z: \<open>readConfig (on_files stub_files stub_json stub_server) ''zerto.json'' = (Some admin, None)\<close>
    by (simp add: readConfig_on_files f json_Unmarshal_Config_def stub_json_def key_matches_def
        upper_def saveError_def admin_def)
  have n: \<open>readConfig (on_files stub_files stub_json stub_server) ''nowhere.json'' =
     (None, Some (Error ''open nowhere.json: no such file or directory''))\<close>
    by (simp add: readConfig_on_files f)
  show ?thesis
    using t [of \<open>''nowhere.json''\<close>] t [of \<open>''/root/.zerto''\<close>] t [of \<open>''broken.json''\<close>]
      t [of \<open>''number.json''\<close>] t [of \<open>''zerto.json''\<close>]
    by (simp add: f r z n)
qed

text \<open>
  Two files that exist and do not have the structure of the spec, a JSON object with
  username and password, yet are read without an error: the content \<^verbatim>\<open>null\<close>, and an
  object whose keys are \<^verbatim>\<open>user\<close> and \<^verbatim>\<open>pass\<close>.
\<close>

theorem null_and_wrong_keys_accepted:
  \<open>stub_files ''null.json'' = Regular ''null''
   \<and> \<not> missing stub_files ''null.json''
   \<and> malformed stub_json ''null''
   \<and> readConfig (on_files stub_files stub_json stub_server) ''null.json'' =
       (Some \<lparr>Username = [], Password = []\<rparr>, None)
   \<and> stub_files ''keys.json'' = Regular ''{"user":"admin","pass":"secret"}''
   \<and> \<not> missing stub_files ''keys.json''
   \<and> malformed stub_json ''{"user":"admin","pass":"secret"}''
   \<and> readConfig (on_files stub_files stub_json stub_server) ''keys.json'' =
       (Some \<lparr>Username = [], Password = []\<rparr>, None)\<close>
proof -
  have f: \<open>stub_files ''null.json'' = Regular ''null''\<close>
    \<open>stub_files ''keys.json'' = Regular ''{"user":"admin","pass":"secret"}''\<close>
    by (simp_all add: stub_files_def)
  have m: \<open>malformed stub_json ''null''\<close>
    \<open>malformed stub_json ''{"user":"admin","pass":"secret"}''\<close>
    by (simp_all add: malformed_def stub_json_def credentials_object_def)
  have r: \<open>readConfig (on_files stub_files stub_json stub_server) ''null.json'' =
       (Some \<lparr>Username = [], Password = []\<rparr>, None)\<close>
    \<open>readConfig (on_files stub_files stub_json stub_server) ''keys.json'' =
       (Some \<lparr>Username = [], Password = []\<rparr>, None)\<close>
    by (simp_all add: readConfig_on_files f json_Unmarshal_Config_def stub_json_def
        key_matches_def upper_def)
  show ?thesis by (simp add: f m r missing_def)
qed

text \<open>
  C6. For the record list \<open>[{ActualRPO: 5}, {ActualRPO: 15}]\<close> the computed average is
  exactly 10: \<^verbatim>\<open>src/main.go\<close> prints \<^verbatim>\<open>10\<close>, \<^verbatim>\<open>src/unnamed/part_000\<close> returns 10.
\<close>

theorem average_of_5_and_15:
  assumes "url_ok env (''https://'' @ serverIP @ '':9669/v1/vpgs'')"
    and "Do env (net w) (vpgs_request serverIP sessionToken) = (Inr resp, n')"
    and "Body resp = Inr body"
    and "Unmarshal_VPGs env body = Inr [\<lparr>ActualRPO = 5\<rparr>, \<lparr>ActualRPO = 15\<rparr>]"
  shows "queryVPGs env serverIP sessionToken w =
           (Return None, Printf (after_Do w (vpgs_request serverIP sessionToken) n') ''10'')
       \<and> queryVPGs_part000 env serverIP sessionToken w =
           (Return (10, None), after_Do w (vpgs_request serverIP sessionToken) n')"
proof -
  have q: "truncated_quotient [\<lparr>ActualRPO = 5\<rparr>, \<lparr>ActualRPO = 15\<rparr>] = 10"
    by (simp add: truncated_quotient_def signed_divide_int_def)
  have s: "itoa 10 = ''10''"
    by (simp add: itoa_def digits.simps)
  show ?thesis
    using queryVPGs_nonempty [OF assms] queryVPGs_part000_nonempty [OF assms]
    by (simp add: q s)
qed

theorem average_of_5_and_15_witness:
  "stdout (snd (queryVPGs
      (stub_env (Inr ''{}'') (Inr admin) (Inr ok_login) (Inr (reply 200))
         (Inr [\<lparr>ActualRPO = 5\<rparr>, \<lparr>ActualRPO = 15\<rparr>]))
      ''zvm'' ''abc123'' world0)) = ''10''
   \<and> fst (queryVPGs_part000
      (stub_env (Inr ''{}'') (Inr admin) (Inr ok_login) (Inr (reply 200))
         (Inr [\<lparr>ActualRPO = 5\<rparr>, \<lparr>ActualRPO = 15\<rparr>]))
      ''zvm'' ''abc123'' world0) = Return (10, None)"
  using average_of_5_and_15 [of
      "stub_env (Inr ''{}'') (Inr admin) (Inr ok_login) (Inr (reply 200))
         (Inr [\<lparr>ActualRPO = 5\<rparr>, \<lparr>ActualRPO = 15\<rparr>])"
      "''zvm''" world0 "''abc123''" "reply 200" 1 "''[...]''"]
  by (simp add: stub_env_def world0_def vpgs_request_def reply_def Printf_def after_Do_def)

text \<open>
  C7. For every token value, the one request \<^verbatim>\<open>queryVPGs\<close> sends is the GET of
  \<^verbatim>\<open>/v1/vpgs\<close> whose \<^verbatim>\<open>X-Zerto-Session\<close> header is exactly that string; and when
  \<^verbatim>\<open>loginToZerto\<close> returns the token \<open>tok\<close>, the request \<open>main\<close> sends next carries \<open>tok\<close>.
\<close>

theorem token_attached_unchanged:
  assumes "url_ok env (''https://'' @ serverIP @ '':9669/v1/vpgs'')"
    and "configFile \<noteq> []"
    and "readConfig env configFile = (Some config, None)"
    and "loginToZerto env serverIP (Username config) (Password config) w =
           (Return (tok, None), w1)"
  shows "sent (snd (queryVPGs env serverIP sessionToken w0)) =
           sent w0 @ [vpgs_request serverIP sessionToken]
       \<and> sent (snd (queryVPGs_part000 env serverIP sessionToken w0)) =
           sent w0 @ [vpgs_request serverIP sessionToken]
       \<and> Method (vpgs_request serverIP sessionToken) = ''GET''
       \<and> URL (vpgs_request serverIP sessionToken) = ''https://'' @ serverIP @ '':9669/v1/vpgs''
       \<and> Header_Get (ReqHeader (vpgs_request serverIP sessionToken)) ''X-Zerto-Session'' =
           sessionToken
       \<and> sent (snd (main env serverIP configFile w)) = sent w1 @ [vpgs_request serverIP tok]
       \<and> sent (snd (main_part000 env serverIP configFile w)) =
           sent w1 @ [vpgs_request serverIP tok]"
  using queryVPGs_sent [OF assms(1)] queryVPGs_part000_sent [OF assms(1)]
    main_sent_after_login [OF assms(2-4)]
  by (simp add: vpgs_request_def Header_Get_def)

theorem token_attached_unchanged_witness:
  "sent (snd (main
      (stub_env (Inr ''{}'') (Inr admin) (Inr ok_login) (Inr (reply 200))
         (Inr [\<lparr>ActualRPO = 5\<rparr>])) ''zvm'' ''zerto.json'' world0)) =
     [\<lparr>Method = ''POST'', URL = ''https://zvm:9669/v1/session/add'',
       ReqHeader = [(''Authorization'', [''Basic admin:secret''])]\<rparr>,
      \<lparr>Method = ''GET'', URL = ''https://zvm:9669/v1/vpgs'',
       ReqHeader = [(''X-Zerto-Session'', [''abc123''])]\<rparr>]"
proof -
  let ?E = "stub_env (Inr ''{}'') (Inr admin) (Inr ok_login) (Inr (reply 200))
         (Inr [\<lparr>ActualRPO = 5\<rparr>])"
  have l: "loginToZerto ?E ''zvm'' (Username admin) (Password admin) world0 =
      (Return (''abc123'', None),
       after_Do world0 (login_request ?E ''zvm'' (Username admin) (Password admin)) 1)"
    by (subst loginToZerto_response [where resp = ok_login and n' = 1])
      (simp_all add: stub_env_def login_request_def world0_def ok_login_def Header_Get_def)
  have r: "readConfig ?E ''zerto.json'' = (Some admin, None)"
    by (simp add: readConfig_def stub_env_def)
  have u: "url_ok ?E (''https://'' @ ''zvm'' @ '':9669/v1/vpgs'')"
    by (simp add: stub_env_def)
  have c: "''zerto.json'' \<noteq> []" by simp
  show ?thesis
    using token_attached_unchanged [OF u c r l, of "''abc123''" world0]
    by (simp add: after_Do_def vpgs_request_def login_request_def world0_def admin_def
        stub_env_def)
qed

text \<open>
  C8. For every non-empty record list the printed average is Go's integer quotient of
  the sum of \<^verbatim>\<open>ActualRPO\<close> by the record count, truncated toward zero (its sign is the
  sum's, its magnitude the floor of the magnitudes' quotient), not the exact mean: the
  records \<open>[{5}, {10}]\<close> give \<^verbatim>\<open>7\<close> while their mean is 7.5.
\<close>

theorem average_is_truncated_quotient:
  assumes "url_ok env (''https://'' @ serverIP @ '':9669/v1/vpgs'')"
    and "Do env (net w) (vpgs_request serverIP sessionToken) = (Inr resp, n')"
    and "Body resp = Inr body"
    and "Unmarshal_VPGs env body = Inr vpgs"
    and "vpgs \<noteq> []" and "length vpgs < 2 ^ 63"
  shows "queryVPGs env serverIP sessionToken w =
           (Return None, Printf (after_Do w (vpgs_request serverIP sessionToken) n')
                           (itoa (truncated_quotient vpgs)))
       \<and> queryVPGs_part000 env serverIP sessionToken w =
           (Return (truncated_quotient vpgs, None),
            after_Do w (vpgs_request serverIP sessionToken) n')
       \<and> sint (truncated_quotient vpgs) =
           sgn (sint (sum_list (map ActualRPO vpgs)))
             * (\<bar>sint (sum_list (map ActualRPO vpgs))\<bar> div int (length vpgs))
       \<and> (vpgs = [\<lparr>ActualRPO = 5\<rparr>, \<lparr>ActualRPO = 10\<rparr>] \<longrightarrow>
            itoa (truncated_quotient vpgs) = ''7''
          \<and> arithmetic_mean vpgs = 15 / 2)"
proof -
  have "1 \<le> int (length vpgs)" using assms(5) by (cases vpgs) simp_all
  then have "sint (truncated_quotient vpgs) =
           sgn (sint (sum_list (map ActualRPO vpgs)))
             * (\<bar>sint (sum_list (map ActualRPO vpgs))\<bar> div int (length vpgs))"
    unfolding sint_truncated_quotient [OF assms(5)] by (rule sdiv_pos_divisor)
  then show ?thesis
    using queryVPGs_nonempty [OF assms] queryVPGs_part000_nonempty [OF assms]
    by (simp add: quotient_5_10 itoa_7 mean_5_10)
qed

theorem average_is_truncated_quotient_witness:
  "queryVPGs (stub_env (Inr ''{}'') (Inr admin) (Inr ok_login) (Inr (reply 200))
         (Inr [\<lparr>ActualRPO = 5\<rparr>, \<lparr>ActualRPO = 10\<rparr>])) ''zvm'' ''abc123'' world0 =
     (Return None,
      \<lparr>net = 1, stdout = ''7'', logged = [], sent = [vpgs_request ''zvm'' ''abc123'']\<rparr>)
   \<and> fst (queryVPGs_part000 (stub_env (Inr ''{}'') (Inr admin) (Inr ok_login) (Inr (reply 200))
         (Inr [\<lparr>ActualRPO = 5\<rparr>, \<lparr>ActualRPO = 10\<rparr>])) ''zvm'' ''abc123'' world0) =
     Return (7, None)"
  using average_is_truncated_quotient [of
      "stub_env (Inr ''{}'') (Inr admin) (Inr ok_login) (Inr (reply 200))
         (Inr [\<lparr>ActualRPO = 5\<rparr>, \<lparr>ActualRPO = 10\<rparr>])"
      "''zvm''" world0 "''abc123''" "reply 200" 1 "''[...]''"
      "[\<lparr>ActualRPO = 5\<rparr>, \<lparr>ActualRPO = 10\<rparr>]"]
  by (simp add: stub_env_def world0_def vpgs_request_def reply_def Printf_def after_Do_def
      quotient_5_10 itoa_7)

text \<open>
  C9. As stated: \<^verbatim>\<open>queryVPGs\<close> never inspects the status of the GET response; whenever
  the body decodes the call succeeds and an average is produced, and whenever it does
  not decode an error is returned. The part about the average fails on the empty array
  (the counterexample follows the witness), which the code sets apart on purpose.

  Amended: \<^verbatim>\<open>queryVPGs\<close> never inspects the status of the GET response: replacing the
  status of every response by any other leaves its result unchanged. Whenever
  \<^verbatim>\<open>json.Unmarshal\<close> accepts the body the call returns no error, with the truncated
  average printed (\<^verbatim>\<open>src/main.go\<close>) or returned (\<^verbatim>\<open>src/unnamed/part_000\<close>) when the list
  is non-empty, and the line \<^verbatim>\<open>No VPGs found.\<close> printed or 0 returned when it is empty;
  whenever \<^verbatim>\<open>json.Unmarshal\<close> rejects the body the call returns an error.
\<close>

theorem status_code_never_inspected:
  assumes "url_ok env (''https://'' @ serverIP @ '':9669/v1/vpgs'')"
    and "Do env (net w) (vpgs_request serverIP sessionToken) = (Inr resp, n')"
    and "Body resp = Inr body"
  shows "queryVPGs (override_status s env) serverIP sessionToken w =
           queryVPGs env serverIP sessionToken w
       \<and> queryVPGs_part000 (override_status s env) serverIP sessionToken w =
           queryVPGs_part000 env serverIP sessionToken w
       \<and> (Unmarshal_VPGs env body = Inr vpgs \<and> length vpgs < 2 ^ 63 \<longrightarrow>
            queryVPGs env serverIP sessionToken w =
              (Return None,
               if vpgs = [] then
                 Println (after_Do w (vpgs_request serverIP sessionToken) n') ''No VPGs found.''
               else Printf (after_Do w (vpgs_request serverIP sessionToken) n')
                      (itoa (truncated_quotient vpgs)))
          \<and> queryVPGs_part000 env serverIP sessionToken w =
              (Return (if vpgs = [] then 0 else truncated_quotient vpgs, None),
               after_Do w (vpgs_request serverIP sessionToken) n'))
       \<and> (Unmarshal_VPGs env body = Inl err \<longrightarrow>
            queryVPGs env serverIP sessionToken w =
              (Return (Some (Error (''error unmarshalling JSON: '' @ Error_msg err))),
               after_Do w (vpgs_request serverIP sessionToken) n')
          \<and> queryVPGs_part000 env serverIP sessionToken w =
              (Return (0, Some (Error (''error unmarshalling JSON: '' @ Error_msg err))),
               after_Do w (vpgs_request serverIP sessionToken) n'))"
proof -
  have "queryVPGs env serverIP sessionToken w =
              (Return None,
               if vpgs = [] then
                 Println (after_Do w (vpgs_request serverIP sessionToken) n') ''No VPGs found.''
               else Printf (after_Do w (vpgs_request serverIP sessionToken) n')
                      (itoa (truncated_quotient vpgs)))
          \<and> queryVPGs_part000 env serverIP sessionToken w =
              (Return (if vpgs = [] then 0 else truncated_quotient vpgs, None),
               after_Do w (vpgs_request serverIP sessionToken) n')"
    if d: "Unmarshal_VPGs env body = Inr vpgs" and l: "length vpgs < 2 ^ 63"
  proof (cases "vpgs = []")
    case True
    note e = d [unfolded True]
    show ?thesis
      using queryVPGs_empty [OF assms e] queryVPGs_part000_empty [OF assms e] True by simp
  next
    case False
    show ?thesis
      using queryVPGs_nonempty [OF assms d False l] queryVPGs_part000_nonempty [OF assms d False l]
        False by simp
  qed
  then show ?thesis
    using queryVPGs_undecodable [OF assms, of err]
    by (simp add: queryVPGs_override_status queryVPGs_part000_override_status)
qed

theorem status_code_never_inspected_witness:
  "queryVPGs (stub_env (Inr ''{}'') (Inr admin) (Inr ok_login) (Inr (reply 503))
         (Inr [\<lparr>ActualRPO = 5\<rparr>, \<lparr>ActualRPO = 10\<rparr>])) ''zvm'' ''abc123'' world0 =
     (Return None,
      \<lparr>net = 1, stdout = ''7'', logged = [], sent = [vpgs_request ''zvm'' ''abc123'']\<rparr>)
   \<and> queryVPGs (stub_env (Inr ''{}'') (Inr admin) (Inr ok_login) (Inr (reply 200))
         (Inl (Error ''unexpected end of JSON input''))) ''zvm'' ''abc123'' world0 =
     (Return (Some (Error ''error unmarshalling JSON: unexpected end of JSON input'')),
      \<lparr>net = 1, stdout = [], logged = [], sent = [vpgs_request ''zvm'' ''abc123'']\<rparr>)"
  using status_code_never_inspected [of
      "stub_env (Inr ''{}'') (Inr admin) (Inr ok_login) (Inr (reply 503))
         (Inr [\<lparr>ActualRPO = 5\<rparr>, \<lparr>ActualRPO = 10\<rparr>])"
      "''zvm''" world0 "''abc123''" "reply 503" 1 "''[...]''" 200
      "[\<lparr>ActualRPO = 5\<rparr>, \<lparr>ActualRPO = 10\<rparr>]" "Error []"]
    status_code_never_inspected [of
      "stub_env (Inr ''{}'') (Inr admin) (Inr ok_login) (Inr (reply 200))
         (Inl (Error ''unexpected end of JSON input''))"
      "''zvm''" world0 "''abc123''" "reply 200" 1 "''[...]''" 503
      "[]" "Error ''unexpected end of JSON input''"]
  by (simp add: stub_env_def world0_def vpgs_request_def reply_def Printf_def after_Do_def
      quotient_5_10 itoa_7)

text \<open>
  A response with status 500 whose body decodes to the empty list: \<^verbatim>\<open>src/main.go\<close>
  succeeds and prints the placeholder line, which is no average.
\<close>

theorem empty_array_with_status_500:
  "queryVPGs (stub_env (Inr ''{}'') (Inr admin) (Inr ok_login) (Inr (reply 500)) (Inr []))
      ''zvm'' ''abc123'' world0 =
     (Return None,
      \<lparr>net = 1, stdout = ''No VPGs found.'' @ [CHR 0x0A], logged = [],
       sent = [vpgs_request ''zvm'' ''abc123'']\<rparr>)
   \<and> StatusCode (reply 500) = 500"
proof -
  have "queryVPGs (stub_env (Inr ''{}'') (Inr admin) (Inr ok_login) (Inr (reply 500)) (Inr []))
      ''zvm'' ''abc123'' world0 =
     (Return None, Println (after_Do world0 (vpgs_request ''zvm'' ''abc123'') 1) ''No VPGs found.'')"
    by (rule queryVPGs_empty [where resp = "reply 500" and body = "''[...]''"])
      (simp_all add: stub_env_def world0_def reply_def vpgs_request_def)
  then show ?thesis
    by (simp add: Println_def after_Do_def world0_def reply_def)
qed

text \<open>
  C10. On a response body decoding to a non-empty record list, the value
  \<^verbatim>\<open>src/main.go\<close> prints is the value \<^verbatim>\<open>queryVPGs\<close> of \<^verbatim>\<open>src/unnamed/part_000\<close> returns and
  its \<open>main\<close> prints (followed there by a newline). On the empty list the outputs differ:
  the line \<^verbatim>\<open>No VPGs found.\<close> against the line \<^verbatim>\<open>0\<close>.
\<close>

theorem variants_agree_except_on_empty:
  assumes "configFile \<noteq> []"
    and "readConfig env configFile = (Some config, None)"
    and "loginToZerto env serverIP (Username config) (Password config) w =
           (Return (tok, None), w1)"
    and "url_ok env (''https://'' @ serverIP @ '':9669/v1/vpgs'')"
    and "Do env (net w1) (vpgs_request serverIP tok) = (Inr resp, n')"
    and "Body resp = Inr body"
    and "Unmarshal_VPGs env body = Inr vpgs"
    and "length vpgs < 2 ^ 63"
  shows "(vpgs \<noteq> [] \<longrightarrow>
            queryVPGs env serverIP tok w1 =
              (Return None, Printf (after_Do w1 (vpgs_request serverIP tok) n')
                              (itoa (truncated_quotient vpgs)))
          \<and> queryVPGs_part000 env serverIP tok w1 =
              (Return (truncated_quotient vpgs, None), after_Do w1 (vpgs_request serverIP tok) n')
          \<and> main env serverIP configFile w =
              (0, Printf (after_Do w1 (vpgs_request serverIP tok) n')
                    (itoa (truncated_quotient vpgs)))
          \<and> main_part000 env serverIP configFile w =
              (0, Println (after_Do w1 (vpgs_request serverIP tok) n')
                    (itoa (truncated_quotient vpgs))))
       \<and> (vpgs = [] \<longrightarrow>
            main env serverIP configFile w =
              (0, Println (after_Do w1 (vpgs_request serverIP tok) n') ''No VPGs found.'')
          \<and> main_part000 env serverIP configFile w =
              (0, Println (after_Do w1 (vpgs_request serverIP tok) n') ''0'')
          \<and> stdout (snd (main env serverIP configFile w)) \<noteq>
              stdout (snd (main_part000 env serverIP configFile w)))"
proof (cases "vpgs = []")
  case True
  note e = assms(7) [unfolded True]
  have "main env serverIP configFile w =
          (0, Println (after_Do w1 (vpgs_request serverIP tok) n') ''No VPGs found.'')"
    by (rule main_after_query(1) [OF assms(1-3) queryVPGs_empty [OF assms(4-6) e]])
  moreover have "main_part000 env serverIP configFile w =
          (0, Println (after_Do w1 (vpgs_request serverIP tok) n') ''0'')"
    using main_after_query(2) [OF assms(1-3) queryVPGs_part000_empty [OF assms(4-6) e]]
    by (simp add: itoa_0)
  ultimately show ?thesis using True by (simp add: Println_def)
next
  case False
  note q = queryVPGs_nonempty [OF assms(4-7) False assms(8)]
    queryVPGs_part000_nonempty [OF assms(4-7) False assms(8)]
  show ?thesis
    using False q main_after_query(1) [OF assms(1-3) q(1)] main_after_query(2) [OF assms(1-3) q(2)]
    by simp
qed

theorem variants_agree_except_on_empty_witness:
  "stdout (snd (main (stub_env (Inr ''{}'') (Inr admin) (Inr ok_login) (Inr (reply 200))
        (Inr [\<lparr>ActualRPO = 5\<rparr>, \<lparr>ActualRPO = 10\<rparr>])) ''zvm'' ''zerto.json'' world0)) = ''7''
   \<and> stdout (snd (main_part000 (stub_env (Inr ''{}'') (Inr admin) (Inr ok_login) (Inr (reply 200))
        (Inr [\<lparr>ActualRPO = 5\<rparr>, \<lparr>ActualRPO = 10\<rparr>])) ''zvm'' ''zerto.json'' world0)) =
       ''7'' @ [CHR 0x0A]
   \<and> stdout (snd (main (stub_env (Inr ''{}'') (Inr admin) (Inr ok_login) (Inr (reply 200))
        (Inr [])) ''zvm'' ''zerto.json'' world0)) = ''No VPGs found.'' @ [CHR 0x0A]
   \<and> stdout (snd (main_part000 (stub_env (Inr ''{}'') (Inr admin) (Inr ok_login) (Inr (reply 200))
        (Inr [])) ''zvm'' ''zerto.json'' world0)) = ''0'' @ [CHR 0x0A]"
proof -
  let ?E = "\<lambda>vpgs. stub_env (Inr ''{}'') (Inr admin) (Inr ok_login) (Inr (reply 200)) (Inr vpgs)"
  have c: "''zerto.json'' \<noteq> []" by simp
  have r: "readConfig (?E vpgs) ''zerto.json'' = (Some admin, None)" for vpgs
    by (simp add: readConfig_def stub_env_def)
  have u: "url_ok (?E vpgs) (''https://'' @ ''zvm'' @ '':9669/v1/vpgs'')" for vpgs
    by (simp add: stub_env_def)
  have d: "Do (?E vpgs) (net \<lparr>net = 1, stdout = [], logged = [],
       sent = [\<lparr>Method = ''POST'', URL = ''https://zvm:9669/v1/session/add'',
                ReqHeader = [(''Authorization'', [''Basic admin:secret''])]\<rparr>]\<rparr>)
        (vpgs_request ''zvm'' ''abc123'') = (Inr (reply 200), 2)" for vpgs
    by (simp add: stub_env_def vpgs_request_def)
  have b: "Body (reply 200) = Inr ''[...]''" by (simp add: reply_def)
  have m: "Unmarshal_VPGs (?E vpgs) ''[...]'' = Inr vpgs" for vpgs
    by (simp add: stub_env_def)
  show ?thesis
    using variants_agree_except_on_empty [OF c r stub_login u d b m,
        of "[\<lparr>ActualRPO = 5\<rparr>, \<lparr>ActualRPO = 10\<rparr>]"]
      variants_agree_except_on_empty [OF c r stub_login u d b m, of "[]"]
    by (simp add: quotient_5_10 itoa_7 Printf_def Println_def after_Do_def)
qed

end
